theory Spec2Isabelle
  imports
    Main
    "HOL-Library.Char_ord"
    "HOL-Library.List_Lexorder"
    "HOL-Library.Product_Lexorder"
    "HOL-Library.Multiset"
    "HOL-Library.Sublist"
begin

unbundle bit_operations_syntax

section \<open>JavaScript values and built-ins used by the two route files\<close>

text \<open>
  The repository is two Next.js route handlers,
  \<^verbatim>\<open>src/app/api/shopify-proxy/[[...path]]/route.ts\<close> (the catch-all route) and
  \<^verbatim>\<open>src/app/api/shopify-proxy/route.ts\<close> (the root route). Strings are byte
  lists (the UTF-8 encoding that \<^verbatim>\<open>hmac.update\<close> and the HTTP response use), a
  property that may be \<^verbatim>\<open>undefined\<close> or \<^verbatim>\<open>null\<close> is an \<open>option\<close>, and an
  evaluation that may throw returns \<open>JsError + 'a\<close> with \<open>Inl\<close> for the exception.
\<close>

datatype JsError = Error string | TypeError string

text \<open>JavaScript truthiness of a possibly absent string: \<^verbatim>\<open>undefined\<close>, \<^verbatim>\<open>null\<close>
  and \<^verbatim>\<open>''\<close> are falsy.\<close>

definition truthy :: "string option \<Rightarrow> bool" where
  "truthy v = (case v of None \<Rightarrow> False | Some s \<Rightarrow> s \<noteq> [])"

text \<open>\<^verbatim>\<open>Array.prototype.join\<close> on an array of strings.\<close>

fun join :: "string \<Rightarrow> string list \<Rightarrow> string" where
  "join sep [] = []"
| "join sep [x] = x"
| "join sep (x # y # ys) = x @ sep @ join sep (y # ys)"

text \<open>\<^verbatim>\<open>str.replace(/c/g, r)\<close> for a one-character pattern \<open>c\<close>.\<close>

fun replaceAll :: "char \<Rightarrow> string \<Rightarrow> string \<Rightarrow> string" where
  "replaceAll c r [] = []"
| "replaceAll c r (x # xs) = (if x = c then r else [x]) @ replaceAll c r xs"

text \<open>\<^verbatim>\<open>Array.prototype.map\<close> with a callback that may throw: the callback runs on the
  elements in order and the first exception aborts the whole call.\<close>

fun Array_map :: "('a \<Rightarrow> JsError + 'b) \<Rightarrow> 'a list \<Rightarrow> JsError + 'b list" where
  "Array_map f [] = Inr []"
| "Array_map f (x # xs) =
     (case f x of
        Inl e \<Rightarrow> Inl e
      | Inr y \<Rightarrow> (case Array_map f xs of Inl e \<Rightarrow> Inl e | Inr ys \<Rightarrow> Inr (y # ys)))"

subsection \<open>URLSearchParams\<close>

text \<open>An ordered sequence of name/value pairs; names may repeat. \<^verbatim>\<open>get\<close> returns the
  value of the first pair with the name, \<^verbatim>\<open>delete\<close> removes every pair with it.\<close>

type_synonym URLSearchParams = "(string \<times> string) list"

fun URLSearchParams_get :: "URLSearchParams \<Rightarrow> string \<Rightarrow> string option" where
  "URLSearchParams_get [] name = None"
| "URLSearchParams_get ((k, v) # ps) name =
     (if k = name then Some v else URLSearchParams_get ps name)"

definition URLSearchParams_delete :: "URLSearchParams \<Rightarrow> string \<Rightarrow> URLSearchParams" where
  "URLSearchParams_delete ps name = filter (\<lambda>(k, v). k \<noteq> name) ps"

subsection \<open>String.prototype.localeCompare and Array.prototype.sort\<close>

text \<open>
  \<^verbatim>\<open>a.localeCompare(b)\<close> compares by the collation of the runtime's default locale, not
  by code units. ECMA-402 makes it a consistent comparator, that is, the comparison of
  the collation sort keys of the two strings; the collation is a parameter of the model,
  given as its sort-key function \<open>coll\<close> into a linear order.
\<close>

definition localeCompare :: "(string \<Rightarrow> 'k::linorder) \<Rightarrow> string \<Rightarrow> string \<Rightarrow> int" where
  "localeCompare coll a b = (if coll a < coll b then - 1 else if coll a = coll b then 0 else 1)"

text \<open>
  \<^verbatim>\<open>Array.prototype.sort(cmp)\<close> is a stable sort (ECMAScript 2019); with a consistent
  comparator its result is the same for every stable algorithm. The model inserts the
  elements from the right, an element going in front of the first one it does not
  exceed.
\<close>

fun insertBy :: "('a \<Rightarrow> 'a \<Rightarrow> int) \<Rightarrow> 'a \<Rightarrow> 'a list \<Rightarrow> 'a list" where
  "insertBy cmp x [] = [x]"
| "insertBy cmp x (y # ys) = (if cmp x y \<le> 0 then x # y # ys else y # insertBy cmp x ys)"

definition Array_sort :: "('a \<Rightarrow> 'a \<Rightarrow> int) \<Rightarrow> 'a list \<Rightarrow> 'a list" where
  "Array_sort cmp xs = foldr (insertBy cmp) xs []"

subsection \<open>crypto.createHmac('sha256', key).update(msg).digest('hex')\<close>

text \<open>
  SHA-256 (FIPS 180-4) on 32-bit words held as natural numbers below \<open>2 ^ 32\<close> (type
  \<open>w32\<close>), with the wrap-around of the addition written out, and HMAC (RFC 2104) over it;
  a \<open>byte\<close> is a natural number below 256.
\<close>

type_synonym w32 = nat
type_synonym byte = nat

definition add32 :: "w32 \<Rightarrow> w32 \<Rightarrow> w32" where
  "add32 x y = (x + y) mod 4294967296"

definition rotr :: "nat \<Rightarrow> w32 \<Rightarrow> w32" where
  "rotr n x = x div 2 ^ n + (x mod 2 ^ n) * 2 ^ (32 - n)"

definition Ch :: "w32 \<Rightarrow> w32 \<Rightarrow> w32 \<Rightarrow> w32" where
  "Ch e f g = (e AND f) XOR ((4294967295 - e) AND g)"

definition Maj :: "w32 \<Rightarrow> w32 \<Rightarrow> w32 \<Rightarrow> w32" where
  "Maj a b c = (a AND b) XOR (a AND c) XOR (b AND c)"

definition bsig0 :: "w32 \<Rightarrow> w32" where
  "bsig0 x = rotr 2 x XOR rotr 13 x XOR rotr 22 x"

definition bsig1 :: "w32 \<Rightarrow> w32" where
  "bsig1 x = rotr 6 x XOR rotr 11 x XOR rotr 25 x"

definition ssig0 :: "w32 \<Rightarrow> w32" where
  "ssig0 x = rotr 7 x XOR rotr 18 x XOR x div 2 ^ 3"

definition ssig1 :: "w32 \<Rightarrow> w32" where
  "ssig1 x = rotr 17 x XOR rotr 19 x XOR x div 2 ^ 10"

text \<open>The round constants (the first 32 bits of the fractional parts of the cube roots of
  the first 64 primes, \<open>K\<^sub>0\<close> being \<^verbatim>\<open>428a2f98\<close> in hexadecimal) and the initial hash value
  (from the square roots of the first 8 primes, \<open>H\<^sub>0\<close> being \<^verbatim>\<open>6a09e667\<close>).\<close>

definition K256 :: "w32 list" where
  "K256 =
    [1116352408, 1899447441, 3049323471, 3921009573, 961987163, 1508970993,
     2453635748, 2870763221, 3624381080, 310598401, 607225278, 1426881987,
     1925078388, 2162078206, 2614888103, 3248222580, 3835390401, 4022224774,
     264347078, 604807628, 770255983, 1249150122, 1555081692, 1996064986,
     2554220882, 2821834349, 2952996808, 3210313671, 3336571891, 3584528711,
     113926993, 338241895, 666307205, 773529912, 1294757372, 1396182291,
     1695183700, 1986661051, 2177026350, 2456956037, 2730485921, 2820302411,
     3259730800, 3345764771, 3516065817, 3600352804, 4094571909, 275423344,
     430227734, 506948616, 659060556, 883997877, 958139571, 1322822218,
     1537002063, 1747873779, 1955562222, 2024104815, 2227730452, 2361852424,
     2428436474, 2756734187, 3204031479, 3329325298]"

definition H256 :: "w32 list" where
  "H256 =
    [1779033703, 3144134277, 1013904242, 2773480762,
     1359893119, 2600822924, 528734635, 1541459225]"

text \<open>One round on the working variables \<open>a \<dots> h\<close>, given \<open>T1\<close> and \<open>T2\<close>.\<close>

fun sha_step :: "w32 list \<Rightarrow> w32 \<Rightarrow> w32 \<Rightarrow> w32 list" where
  "sha_step [a, b, c, d, e, f, g, h] t1 t2 = [add32 t1 t2, a, b, c, add32 d t1, e, f, g]"
| "sha_step s t1 t2 = s"

fun sha_round :: "w32 list \<Rightarrow> w32 \<Rightarrow> w32 \<Rightarrow> w32 list" where
  "sha_round [a, b, c, d, e, f, g, h] k w =
     sha_step [a, b, c, d, e, f, g, h]
       (add32 (add32 (add32 (add32 h (bsig1 e)) (Ch e f g)) k) w)
       (add32 (bsig0 a) (Maj a b c))"
| "sha_round s k w = s"

text \<open>The message schedule as a sliding window of sixteen words: the head is \<open>W\<^sub>t\<close>, and
  \<open>W\<^sub>t\<^sub>+\<^sub>1\<^sub>6\<close> is appended.\<close>

definition next_w :: "w32 list \<Rightarrow> w32" where
  "next_w win = add32 (add32 (add32 (ssig1 (win ! 14)) (win ! 9)) (ssig0 (win ! 1))) (win ! 0)"

fun rounds :: "w32 list \<Rightarrow> w32 list \<Rightarrow> w32 list \<Rightarrow> w32 list" where
  "rounds [] win s = s"
| "rounds (k # ks) win s = rounds ks (tl win @ [next_w win]) (sha_round s k (hd win))"

definition compress :: "w32 list \<Rightarrow> w32 list \<Rightarrow> w32 list" where
  "compress hs blk = map2 add32 hs (rounds K256 blk hs)"

fun be32 :: "byte list \<Rightarrow> w32 list" where
  "be32 (a # b # c # d # r) = (a * 16777216 + b * 65536 + c * 256 + d) # be32 r"
| "be32 _ = []"

fun hash_blocks :: "w32 list \<Rightarrow> w32 list \<Rightarrow> w32 list" where
  "hash_blocks hs (w0 # w1 # w2 # w3 # w4 # w5 # w6 # w7 # w8 # w9 # w10 # w11 # w12 # w13 # w14 #
       w15 # r) =
     hash_blocks
       (compress hs [w0, w1, w2, w3, w4, w5, w6, w7, w8, w9, w10, w11, w12, w13, w14, w15]) r"
| "hash_blocks hs _ = hs"

definition pad :: "byte list \<Rightarrow> byte list" where
  "pad m = m @ [128] @ replicate ((119 - length m mod 64) mod 64) 0 @
     map (\<lambda>i. (8 * length m) div 256 ^ i mod 256) [7, 6, 5, 4, 3, 2, 1, 0]"

definition unbe32 :: "w32 \<Rightarrow> byte list" where
  "unbe32 w = [w div 16777216, w div 65536 mod 256, w div 256 mod 256, w mod 256]"

definition sha256 :: "byte list \<Rightarrow> byte list" where
  "sha256 m = concat (map unbe32 (hash_blocks H256 (be32 (pad m))))"

definition hmac_sha256 :: "byte list \<Rightarrow> byte list \<Rightarrow> byte list" where
  "hmac_sha256 key m =
     (let k0 = (if length key > 64 then sha256 key else key);
          k = k0 @ replicate (64 - length k0) 0
      in sha256 (map (\<lambda>b. b XOR 0x5c) k @ sha256 (map (\<lambda>b. b XOR 0x36) k @ m)))"

definition hexdigit :: "nat \<Rightarrow> char" where
  "hexdigit n = ''0123456789abcdef'' ! n"

definition hex :: "byte list \<Rightarrow> string" where
  "hex bs = concat (map (\<lambda>b. [hexdigit (b div 16), hexdigit (b mod 16)]) bs)"

definition bytes :: "string \<Rightarrow> byte list" where
  "bytes s = map of_char s"

text \<open>The digest call of the routes. The key is \<^verbatim>\<open>process.env.SHOPIFY_CLIENT_SECRET\<close>,
  which is \<^verbatim>\<open>undefined\<close> when the variable is not set; \<^verbatim>\<open>createHmac\<close> then throws.\<close>

definition hmacHex :: "string \<Rightarrow> string \<Rightarrow> string" where
  "hmacHex key msg = hex (hmac_sha256 (bytes key) (bytes msg))"

definition createHmac_sha256_hex :: "string option \<Rightarrow> string \<Rightarrow> JsError + string" where
  "createHmac_sha256_hex key msg =
     (case key of
        None \<Rightarrow> Inl (TypeError ''The \"key\" argument must be of type string'')
      | Some k \<Rightarrow> Inr (hmacHex k msg))"

section \<open>Signature verification (both route files, lines 8-27)\<close>

definition sortedParams :: "(string \<Rightarrow> 'k::linorder) \<Rightarrow> URLSearchParams \<Rightarrow> string" where
  "sortedParams coll params =
     join ''&''
       (map (\<lambda>(key, value). key @ ''='' @ value)
         (Array_sort (\<lambda>(a, _) (b, _). localeCompare coll a b) params))"

definition verifyShopifySignature ::
  "(string \<Rightarrow> 'k::linorder) \<Rightarrow> string option \<Rightarrow> URLSearchParams \<Rightarrow> JsError + bool" where
  "verifyShopifySignature coll SHOPIFY_CLIENT_SECRET query =
     (case URLSearchParams_get query ''signature'' of
        None \<Rightarrow> Inr False
      | Some signature \<Rightarrow>
          if signature = [] then Inr False
          else
            (let params = URLSearchParams_delete query ''signature'' in
             case createHmac_sha256_hex SHOPIFY_CLIENT_SECRET (sortedParams coll params) of
               Inl e \<Rightarrow> Inl e
             | Inr hash \<Rightarrow> Inr (hash = signature)))"

text \<open>
  The canonical string in the words of the specification: drop the \<^verbatim>\<open>signature\<close> field,
  sort the remaining parameters by key, join them as \<^verbatim>\<open>key=value\<close> with \<^verbatim>\<open>&\<close>. The
  order on keys is given by a ranking \<open>ord\<close>; the identity \<open>\<lambda>k. k\<close> is the byte-wise
  lexicographic order of the strings.
\<close>

definition spec_canonical :: "(string \<Rightarrow> 'k::linorder) \<Rightarrow> URLSearchParams \<Rightarrow> string" where
  "spec_canonical ord query =
     join ''&''
       (map (\<lambda>(k, v). k @ ''='' @ v)
         (sort_key (ord \<circ> fst) (filter (\<lambda>(k, v). k \<noteq> ''signature'') query)))"

text \<open>
  A collation to run the model on: on keys made of ASCII letters and underscores, the sort
  key of the CLDR root collation, which Node's ICU uses for \<^verbatim>\<open>localeCompare\<close> in English
  and French locales. The underscore comes before the letters, letters are ordered
  alphabetically without regard to case, and only then lower case before upper case, so
  that \<^verbatim>\<open>'a'.localeCompare('B')\<close> is negative although \<^verbatim>\<open>'B'\<close> (0x42) is below \<^verbatim>\<open>'a'\<close>
  (0x61) in byte order.
\<close>

definition toLowerCase :: "char \<Rightarrow> char" where
  "toLowerCase c =
     (case map_of (zip ''ABCDEFGHIJKLMNOPQRSTUVWXYZ'' ''abcdefghijklmnopqrstuvwxyz'') c of
        None \<Rightarrow> c
      | Some l \<Rightarrow> l)"

definition asciiLetterCollation :: "string \<Rightarrow> string \<times> bool list" where
  "asciiLetterCollation s =
     (map toLowerCase s, map (\<lambda>c. c \<in> set ''ABCDEFGHIJKLMNOPQRSTUVWXYZ'') s)"

section \<open>Signature verification on the objects of the runtime\<close>

text \<open>
  A \<^verbatim>\<open>URLSearchParams\<close> is an object: the caller and the function hold references to it,
  and \<^verbatim>\<open>delete\<close> changes the object in place. The runtime state is the objects by
  reference (a reference is an index into the list), what \<^verbatim>\<open>console.error\<close> has
  printed, the module constant \<^verbatim>\<open>SHOPIFY_CLIENT_SECRET\<close> and the collation of the default
  locale, which \<^verbatim>\<open>localeCompare\<close> reads. A reference that a caller holds is an index
  below the length of the list; a new object goes to the end of the list.
\<close>

type_synonym ref = nat

record 'k Runtime =
  objects :: "URLSearchParams list"
  console :: "JsError list"
  secretKey :: "string option"
  collation :: "string \<Rightarrow> 'k"

text \<open>\<^verbatim>\<open>new URLSearchParams(init)\<close>: a new object with a copy of the pairs of \<open>init\<close>.\<close>

definition new_URLSearchParams :: "ref \<Rightarrow> 'k Runtime \<Rightarrow> ref \<times> 'k Runtime" where
  "new_URLSearchParams init rt =
     (length (objects rt), rt\<lparr>objects := objects rt @ [objects rt ! init]\<rparr>)"

text \<open>\<^verbatim>\<open>params.delete(name)\<close>: the object behind the reference loses the pairs.\<close>

definition delete_in_place :: "ref \<Rightarrow> string \<Rightarrow> 'k Runtime \<Rightarrow> 'k Runtime" where
  "delete_in_place params name rt =
     rt\<lparr>objects := (objects rt)[params := URLSearchParams_delete (objects rt ! params) name]\<rparr>"

text \<open>Lines 8-27, statement by statement, on a reference \<open>query\<close>.\<close>

definition verifyShopifySignature_call ::
  "ref \<Rightarrow> ('k::linorder) Runtime \<Rightarrow> (JsError + bool) \<times> 'k Runtime" where
  "verifyShopifySignature_call query rt =
     (case URLSearchParams_get (objects rt ! query) ''signature'' of
        None \<Rightarrow> (Inr False, rt)
      | Some signature \<Rightarrow>
          if signature = [] then (Inr False, rt)
          else
            (case new_URLSearchParams query rt of
               (params, rt1) \<Rightarrow>
                 (let rt2 = delete_in_place params ''signature'' rt1 in
                  case createHmac_sha256_hex (secretKey rt2)
                         (sortedParams (collation rt2) (objects rt2 ! params)) of
                    Inl e \<Rightarrow> (Inl e, rt2)
                  | Inr hash \<Rightarrow> (Inr (hash = signature), rt2))))"

section \<open>Content-store records\<close>

text \<open>
  The projections of the three GROQ queries. A projected attribute that the document
  lacks comes back as \<^verbatim>\<open>null\<close>, hence the options; the elements of the arrays are
  objects, as the type annotations of the routes have it. The rich-text value of a block
  or of a root-route post is opaque to the routes (type \<open>'c\<close>): it is only handed to
  \<^verbatim>\<open>toHTML\<close>. The authors of a blog document are projected to their \<open>fullName\<close> alone.
\<close>

record Author =
  fullName :: "string option"
  slug :: "string option"
  photoUrl :: "string option"

record FaqItem =
  question :: "string option"
  answer :: "string option"

text \<open>A body block; \<open>block_type\<close> is its \<^verbatim>\<open>_type\<close> tag. The store may hold blocks of other
  kinds than the four the renderer knows.\<close>

record 'c BodyBlock =
  block_type :: string
  title :: "string option"
  content :: 'c
  items :: "FaqItem list option"
  description :: "string option"
  btnText :: "string option"

text \<open>A \<^verbatim>\<open>blog\<close> document, as the catch-all route projects it.\<close>

record 'c Blog =
  title :: "string option"
  shortDescription :: "string option"
  body :: "'c BodyBlock list option"
  mainPhotoUrl :: "string option"
  mainPhotoAlt :: "string option"
  publishedAt :: "string option"
  authors :: "Author list option"

text \<open>A \<^verbatim>\<open>post\<close> document, as the root route projects it.\<close>

record 'c Post =
  title :: "string option"
  body :: "'c option"
  mainImageUrl :: "string option"
  publishedAt :: "string option"
  authorName :: "string option"

text \<open>\<^verbatim>\<open>client.fetch\<close>, by query: the promise rejects (\<open>Inl\<close>) or resolves to the
  result, \<^verbatim>\<open>null\<close> when nothing matches.\<close>

record 'c Client =
  fetch_authors :: "JsError + Author list option"
  fetch_blog :: "string \<Rightarrow> JsError + 'c Blog option"
  fetch_post :: "string \<Rightarrow> JsError + 'c Post option"

text \<open>What a handler runs against: the secret of the environment, the content store, and
  the two library functions \<^verbatim>\<open>toHTML\<close> of \<^verbatim>\<open>@portabletext/to-html\<close> (which may throw) and
  \<^verbatim>\<open>new Date(d).toLocaleDateString('fr-FR', {\<dots>})\<close>.\<close>

record 'c Env =
  SHOPIFY_CLIENT_SECRET :: "string option"
  client :: "'c Client"
  toHTML :: "'c \<Rightarrow> JsError + string"
  toLocaleDateString :: "string \<Rightarrow> string"

record NextResponse =
  body :: string
  status :: nat
  headers :: "(string \<times> string) list"

section \<open>HTML escaping\<close>

text \<open>The four chained \<^verbatim>\<open>replace\<close> calls of both \<^verbatim>\<open>escapeHTML\<close> functions, in their order:
  \<^verbatim>\<open>&\<close> first.\<close>

definition escapeString :: "string \<Rightarrow> string" where
  "escapeString s =
     replaceAll (CHR 0x22) ''&quot;''
       (replaceAll (CHR ''>'') ''&gt;''
         (replaceAll (CHR ''<'') ''&lt;''
           (replaceAll (CHR ''&'') ''&amp;'' s)))"

text \<open>Catch-all route, lines 238-245: a falsy argument gives the empty string.\<close>

definition escapeHTML :: "string option \<Rightarrow> string" where
  "escapeHTML str =
     (case str of None \<Rightarrow> [] | Some s \<Rightarrow> if s = [] then [] else escapeString s)"

text \<open>Root route, lines 116-122: no guard, so \<^verbatim>\<open>str.replace\<close> throws on \<^verbatim>\<open>null\<close>.\<close>

definition escapeHTML_root :: "string option \<Rightarrow> JsError + string" where
  "escapeHTML_root str =
     (case str of
        None \<Rightarrow> Inl (TypeError ''Cannot read properties of null (reading 'replace')'')
      | Some s \<Rightarrow> Inr (escapeString s))"

section \<open>The templates\<close>

text \<open>The constant parts of the template literals, character for character.\<close>

definition docHead :: string where
  \<open>docHead = concat
    [''<!DOCTYPE html>\<newline>'',
     ''<html lang="fr">\<newline>'',
     ''<head>\<newline>'',
     ''  <meta charset="UTF-8">\<newline>'',
     ''  <meta name="viewport" content="width=device-width, initial-scale=1.0">\<newline>'',
     ''  <title>'']\<close>

definition blogStyle :: string where
  \<open>blogStyle = concat
    [''</title>\<newline>'',
     ''  <style>\<newline>'',
     ''    body {\<newline>'',
     ''      font-family: -apple-system, BlinkMacSystemFont, 'Segoe UI', Roboto, sans-serif;\<newline>'',
     ''      max-width: 800px;\<newline>'',
     ''      margin: 0 auto;\<newline>'',
     ''      padding: 20px;\<newline>'',
     ''      line-height: 1.6;\<newline>'',
     ''      color: #1a1a1a;\<newline>'',
     ''    }\<newline>'',
     ''    h1 { font-size: 2.5rem; margin-bottom: 1rem; }\<newline>'',
     ''    h2 { font-size: 1.75rem; margin-top: 2rem; }\<newline>'',
     ''    h3 { font-size: 1.375rem; margin-top: 1.5rem; }\<newline>'',
     ''    .meta { color: #666; margin-bottom: 2rem; font-size: 0.9rem; }\<newline>'',
     ''    img { max-width: 100%; height: auto; border-radius: 8px; margin-bottom: 2rem; }\<newline>'',
     ''    p { margin-bottom: 1rem; }\<newline>'',
     ''    .faq-item { margin-bottom: 1.5rem; }\<newline>'',
     ''    .faq-item strong { display: block; margin-bottom: 0.25rem; }\<newline>'',
     ''  </style>\<newline>'',
     ''</head>\<newline>'',
     ''<body>\<newline>'',
     ''  <article>\<newline>'',
     ''    <h1>'']\<close>

definition postStyle :: string where
  \<open>postStyle = concat
    [''</title>\<newline>'',
     ''  <style>\<newline>'',
     ''    body {\<newline>'',
     ''      font-family: -apple-system, BlinkMacSystemFont, 'Segoe UI', Roboto, sans-serif;\<newline>'',
     ''      max-width: 800px;\<newline>'',
     ''      margin: 0 auto;\<newline>'',
     ''      padding: 20px;\<newline>'',
     ''      line-height: 1.6;\<newline>'',
     ''      color: #1a1a1a;\<newline>'',
     ''    }\<newline>'',
     ''    h1 { font-size: 2.5rem; margin-bottom: 1rem; }\<newline>'',
     ''    h2 { font-size: 1.75rem; margin-top: 2rem; }\<newline>'',
     ''    h3 { font-size: 1.375rem; margin-top: 1.5rem; }\<newline>'',
     ''    .meta { color: #666; margin-bottom: 2rem; font-size: 0.9rem; }\<newline>'',
     ''    img { max-width: 100%; height: auto; border-radius: 8px; margin-bottom: 2rem; }\<newline>'',
     ''    p { margin-bottom: 1rem; }\<newline>'',
     ''  </style>\<newline>'',
     ''</head>\<newline>'',
     ''<body>\<newline>'',
     ''  <article>\<newline>'',
     ''    <h1>'']\<close>

definition metaOpen :: string where
  \<open>metaOpen = concat
    [''</h1>\<newline>'',
     ''    <div class="meta">\<newline>'',
     ''      '']\<close>

definition metaSep :: string where
  \<open>metaSep = concat
    [''\<newline>'',
     ''      '']\<close>

definition metaClose :: string where
  \<open>metaClose = concat
    [''\<newline>'',
     ''    </div>\<newline>'',
     ''    '']\<close>

definition contentOpen :: string where
  \<open>contentOpen = concat
    [''\<newline>'',
     ''    <div class="content">\<newline>'',
     ''      '']\<close>

definition docTail :: string where
  \<open>docTail = concat
    [''\<newline>'',
     ''    </div>\<newline>'',
     ''  </article>\<newline>'',
     ''</body>\<newline>'',
     ''</html>'']\<close>

definition authorListHead :: string where
  \<open>authorListHead = concat
    [''<!DOCTYPE html>\<newline>'',
     ''<html lang="fr">\<newline>'',
     ''<head>\<newline>'',
     ''  <meta charset="UTF-8">\<newline>'',
     ''  <meta name="viewport" content="width=device-width, initial-scale=1.0">\<newline>'',
     ''  <title>Nos auteurs</title>\<newline>'',
     ''  <style>\<newline>'',
     ''    body {\<newline>'',
     ''      font-family: -apple-system, BlinkMacSystemFont, 'Segoe UI', Roboto, sans-serif;\<newline>'',
     ''      max-width: 900px;\<newline>'',
     ''      margin: 0 auto;\<newline>'',
     ''      padding: 40px 20px;\<newline>'',
     ''      color: #1a1a1a;\<newline>'',
     ''    }\<newline>'',
     ''    h1 { font-size: 2rem; margin-bottom: 2rem; }\<newline>'',
     ''    .authors-grid {\<newline>'',
     ''      display: grid;\<newline>'',
     ''      grid-template-columns: repeat(auto-fill, minmax(200px, 1fr));\<newline>'',
     ''      gap: 2rem;\<newline>'',
     ''    }\<newline>'',
     ''    .author-card {\<newline>'',
     ''      text-align: center;\<newline>'',
     ''    }\<newline>'',
     ''    .author-card img {\<newline>'',
     ''      width: 120px;\<newline>'',
     ''      height: 120px;\<newline>'',
     ''      border-radius: 50%;\<newline>'',
     ''      object-fit: cover;\<newline>'',
     ''      margin-bottom: 1rem;\<newline>'',
     ''    }\<newline>'',
     ''    .author-card h2 {\<newline>'',
     ''      font-size: 1rem;\<newline>'',
     ''      margin: 0;\<newline>'',
     ''    }\<newline>'',
     ''  </style>\<newline>'',
     ''</head>\<newline>'',
     ''<body>\<newline>'',
     ''  <h1>Nos auteurs</h1>\<newline>'',
     ''  <div class="authors-grid">\<newline>'',
     ''    '']\<close>

definition authorListTail :: string where
  \<open>authorListTail = concat
    [''\<newline>'',
     ''  </div>\<newline>'',
     ''</body>\<newline>'',
     ''</html>'']\<close>

section \<open>Block renderer (catch-all route, lines 197-236)\<close>

text \<open>One item of a FAQ block, the callback of \<^verbatim>\<open>block.items.map\<close>.\<close>

definition renderFaqItem :: "FaqItem \<Rightarrow> string" where
  \<open>renderFaqItem item = concat
    [''\<newline>'',
     ''            <div class="faq-item">\<newline>'',
     ''              <strong>'', escapeHTML (question item), ''</strong>\<newline>'',
     ''              <p>'', escapeHTML (answer item), ''</p>\<newline>'',
     ''            </div>\<newline>'',
     ''          '']\<close>

text \<open>The callback of \<^verbatim>\<open>body.map\<close>: the \<^verbatim>\<open>switch\<close> on \<^verbatim>\<open>block._type\<close> with its
  \<^verbatim>\<open>default\<close> arm. A FAQ block without \<^verbatim>\<open>items\<close> makes \<^verbatim>\<open>block.items.map\<close> throw.\<close>

definition renderBlock :: "('c \<Rightarrow> JsError + string) \<Rightarrow> 'c BodyBlock \<Rightarrow> JsError + string" where
  \<open>renderBlock toHTML' block =
     (if block_type block = ''wysiwygBlock'' then
        (case toHTML' (content block) of
           Inl e \<Rightarrow> Inl e
         | Inr html \<Rightarrow> Inr (concat
            [''<section>\<newline>'',
             ''          <h2>'', escapeHTML (BodyBlock.title block), ''</h2>\<newline>'',
             ''          '', html, ''\<newline>'',
             ''        </section>'']))
      else if block_type block = ''faqBlock'' then
        (case items block of
           None \<Rightarrow> Inl (TypeError ''Cannot read properties of null (reading map)'')
         | Some its \<Rightarrow> Inr (concat
            [''<section>\<newline>'',
             ''          <h2>'', escapeHTML (BodyBlock.title block), ''</h2>\<newline>'',
             ''          '', join [] (map renderFaqItem its), ''\<newline>'',
             ''        </section>'']))
      else if block_type block = ''ctaBlock'' then
        Inr (concat
          [''<section>\<newline>'',
           ''          <h2>'', escapeHTML (BodyBlock.title block), ''</h2>\<newline>'',
           ''          <p>'', escapeHTML (description block), ''</p>\<newline>'',
           ''          <p><strong>'', escapeHTML (btnText block), ''</strong></p>\<newline>'',
           ''        </section>''])
      else if block_type block = ''quickAnswerBlock'' then
        (case toHTML' (content block) of
           Inl e \<Rightarrow> Inl e
         | Inr html \<Rightarrow> Inr (concat
            [''<section>\<newline>'',
             ''          <h2>'', escapeHTML (BodyBlock.title block), ''</h2>\<newline>'',
             ''          '', html, ''\<newline>'',
             ''        </section>'']))
      else Inr [])\<close>

definition renderBody ::
  "('c \<Rightarrow> JsError + string) \<Rightarrow> 'c BodyBlock list option \<Rightarrow> JsError + string" where
  "renderBody toHTML' body' =
     (case body' of
        None \<Rightarrow> Inr []
      | Some blocks \<Rightarrow>
          (case Array_map (renderBlock toHTML') blocks of
             Inl e \<Rightarrow> Inl e
           | Inr parts \<Rightarrow> Inr (join [] parts)))"

section \<open>Author list (catch-all route, lines 60-121)\<close>

text \<open>The \<^verbatim>\<open>img\<close> element of the two templates: the URL goes in as it is, the
  alternative text escaped.\<close>

definition imgTag :: "string \<Rightarrow> string \<Rightarrow> string" where
  \<open>imgTag url alt = concat [''<img src="'', url, ''" alt="'', alt, ''">'']\<close>

definition authorCard :: "Author \<Rightarrow> string" where
  \<open>authorCard author = concat
    [''\<newline>'',
     ''    <div class="author-card">\<newline>'',
     ''      '',
     (case photoUrl author of
        None \<Rightarrow> []
      | Some url \<Rightarrow> if url = [] then [] else imgTag url (escapeHTML (fullName author))),
     ''\<newline>'',
     ''      <h2>'', escapeHTML (fullName author), ''</h2>\<newline>'',
     ''    </div>\<newline>'',
     ''  '']\<close>

text \<open>Lines 71-120: the document for a non-empty array of authors.\<close>

definition authorListDocument :: "Author list \<Rightarrow> string" where
  "authorListDocument authors' =
     authorListHead @ join [] (map authorCard authors') @ authorListTail"

definition fetchAndRenderAuthorList :: "'c Env \<Rightarrow> JsError + string" where
  "fetchAndRenderAuthorList env =
     (case fetch_authors (client env) of
        Inl e \<Rightarrow> Inl e
      | Inr None \<Rightarrow> Inl (Error ''No authors found'')
      | Inr (Some authors') \<Rightarrow>
          if authors' = [] then Inl (Error ''No authors found'')
          else Inr (authorListDocument authors'))"

section \<open>Single post, catch-all route (lines 123-189)\<close>

text \<open>\<^verbatim>\<open>const publishedDate = post.publishedAt ? new Date(\<dots>).toLocaleDateString(\<dots>) : ''\<close>\<close>

definition publishedDate :: "(string \<Rightarrow> string) \<Rightarrow> string option \<Rightarrow> string" where
  "publishedDate fmt at =
     (case at of None \<Rightarrow> [] | Some d \<Rightarrow> if d = [] then [] else fmt d)"

text \<open>\<^verbatim>\<open>post.authors?.map((a) => escapeHTML(a.fullName)).join(', ') || ''\<close>\<close>

definition authorNames :: "Author list option \<Rightarrow> string" where
  "authorNames as =
     (case as of
        None \<Rightarrow> []
      | Some authors' \<Rightarrow> join '', '' (map (\<lambda>a. escapeHTML (fullName a)) authors'))"

text \<open>The holes of the document template: the two parts of the meta line and the image.\<close>

definition metaDate :: "string \<Rightarrow> string" where
  \<open>metaDate date = (if date \<noteq> [] then ''Publi'' @ [CHR 0xC3, CHR 0xA9] @ '' le '' @ date else [])\<close>

definition metaAuthors :: "string \<Rightarrow> string" where
  \<open>metaAuthors names = (if names \<noteq> [] then '' '' @ [CHR 0xC2, CHR 0xB7] @ '' Par '' @ names else [])\<close>

definition mainPhoto :: "'c Blog \<Rightarrow> string" where
  "mainPhoto post =
     (case mainPhotoUrl post of
        None \<Rightarrow> []
      | Some url \<Rightarrow>
          if url = [] then []
          else imgTag url
                 (escapeHTML (if truthy (mainPhotoAlt post) then mainPhotoAlt post else Blog.title post)))"

text \<open>The document template as a function of its holes; the title goes in twice.\<close>

definition blogDocument :: "string \<Rightarrow> string \<Rightarrow> string \<Rightarrow> string \<Rightarrow> string \<Rightarrow> string" where
  "blogDocument title' date names img bodyHTML =
     docHead @ title' @ blogStyle @ title' @ metaOpen @ date @ metaSep @ names @ metaClose @
     img @ contentOpen @ bodyHTML @ docTail"

text \<open>Lines 138-188: what \<^verbatim>\<open>fetchAndRenderPost\<close> does with the fetched post.\<close>

definition renderBlog ::
  "('c \<Rightarrow> JsError + string) \<Rightarrow> (string \<Rightarrow> string) \<Rightarrow> 'c Blog \<Rightarrow> JsError + string" where
  "renderBlog toHTML' fmt post =
     (case renderBody toHTML' (Blog.body post) of
        Inl e \<Rightarrow> Inl e
      | Inr bodyHTML \<Rightarrow>
          Inr (blogDocument (escapeHTML (Blog.title post))
                 (metaDate (publishedDate fmt (Blog.publishedAt post)))
                 (metaAuthors (authorNames (authors post)))
                 (mainPhoto post) bodyHTML))"

definition fetchAndRenderPost :: "'c Env \<Rightarrow> string \<Rightarrow> JsError + string" where
  "fetchAndRenderPost env slug' =
     (case fetch_blog (client env) slug' of
        Inl e \<Rightarrow> Inl e
      | Inr None \<Rightarrow> Inl (Error (''Post not found: '' @ slug'))
      | Inr (Some post) \<Rightarrow> renderBlog (toHTML env) (toLocaleDateString env) post)"

section \<open>Single post, root route (lines 55-114)\<close>

definition postDocument :: "string \<Rightarrow> string \<Rightarrow> string \<Rightarrow> string \<Rightarrow> string \<Rightarrow> string" where
  "postDocument title' date names img bodyHTML =
     docHead @ title' @ postStyle @ title' @ metaOpen @ date @ metaSep @ names @ metaClose @
     img @ contentOpen @ bodyHTML @ docTail"

text \<open>The holes for the author and the image. The author name is escaped only when it is
  truthy, so that the unguarded \<^verbatim>\<open>escapeHTML\<close> cannot throw there; the alternative text
  of the image is the escaped title.\<close>

definition postAuthor :: "'c Post \<Rightarrow> string" where
  \<open>postAuthor post =
     (case authorName post of
        None \<Rightarrow> []
      | Some name \<Rightarrow>
          if name = [] then [] else '' '' @ [CHR 0xC2, CHR 0xB7] @ '' Par '' @ escapeString name)\<close>

definition mainImage :: "'c Post \<Rightarrow> string \<Rightarrow> string" where
  "mainImage post title' =
     (case mainImageUrl post of
        None \<Rightarrow> []
      | Some url \<Rightarrow> if url = [] then [] else imgTag url title')"

text \<open>Lines 68-113. The unguarded \<^verbatim>\<open>escapeHTML(post.title)\<close> is the first hole of the
  template, so a post without title throws there.\<close>

definition renderPost_root ::
  "('c \<Rightarrow> JsError + string) \<Rightarrow> (string \<Rightarrow> string) \<Rightarrow> 'c Post \<Rightarrow> JsError + string" where
  "renderPost_root toHTML' fmt post =
     (case (case Post.body post of None \<Rightarrow> Inr [] | Some b \<Rightarrow> toHTML' b) of
        Inl e \<Rightarrow> Inl e
      | Inr bodyHTML \<Rightarrow>
          (case escapeHTML_root (Post.title post) of
             Inl e \<Rightarrow> Inl e
           | Inr title' \<Rightarrow>
               Inr (postDocument title'
                      (metaDate (publishedDate fmt (Post.publishedAt post)))
                      (postAuthor post) (mainImage post title') bodyHTML)))"

definition fetchAndRenderPost_root :: "'c Env \<Rightarrow> string \<Rightarrow> JsError + string" where
  "fetchAndRenderPost_root env slug' =
     (case fetch_post (client env) slug' of
        Inl e \<Rightarrow> Inl e
      | Inr None \<Rightarrow> Inl (Error (''Post not found: '' @ slug'))
      | Inr (Some post) \<Rightarrow> renderPost_root (toHTML env) (toLocaleDateString env) post)"

section \<open>The route handlers\<close>

text \<open>A handler returns its response and what it wrote with \<^verbatim>\<open>console.error\<close>; an
  exception outside the \<^verbatim>\<open>try\<close> block leaves the handler (\<open>Inl\<close>).\<close>

definition unauthorized :: NextResponse where
  "unauthorized = \<lparr>body = ''Unauthorized'', status = 401, headers = []\<rparr>"

definition ok :: "string \<Rightarrow> NextResponse" where
  "ok html =
     \<lparr>body = html, status = 200,
      headers = [(''Content-Type'', ''application/liquid''),
                 (''Cache-Control'', ''public, max-age=300'')]\<rparr>"

definition notFound :: NextResponse where
  "notFound = \<lparr>body = ''Content not found'', status = 404, headers = []\<rparr>"

text \<open>Catch-all route, lines 29-58. \<open>path\<close> is the optional array of path segments.\<close>

definition slugOf :: "string list option \<Rightarrow> string" where
  "slugOf path = (case path of None \<Rightarrow> [] | Some segments \<Rightarrow> join ''/'' segments)"

definition GET_html :: "'c Env \<Rightarrow> string \<Rightarrow> JsError + string" where
  "GET_html env slug' =
     (if slug' = [] \<or> slug' = ''liste'' then fetchAndRenderAuthorList env
      else fetchAndRenderPost env slug')"

definition GET ::
  "(string \<Rightarrow> 'k::linorder) \<Rightarrow> 'c Env \<Rightarrow> URLSearchParams \<Rightarrow> string list option \<Rightarrow>
     JsError + NextResponse \<times> JsError list" where
  "GET coll env searchParams path =
     (case verifyShopifySignature coll (SHOPIFY_CLIENT_SECRET env) searchParams of
        Inl e \<Rightarrow> Inl e
      | Inr verified \<Rightarrow>
          if \<not> verified then Inr (unauthorized, [])
          else
            (case GET_html env (slugOf path) of
               Inr html \<Rightarrow> Inr (ok html, [])
             | Inl error \<Rightarrow> Inr (notFound, [error])))"

text \<open>Root route, lines 29-53: the slug is the \<^verbatim>\<open>path_prefix\<close> parameter without one
  leading slash, and there is no list mode.\<close>

definition slugOfPrefix :: "URLSearchParams \<Rightarrow> string" where
  "slugOfPrefix searchParams =
     (case URLSearchParams_get searchParams ''path_prefix'' of
        None \<Rightarrow> []
      | Some pathPrefix \<Rightarrow>
          (case pathPrefix of c # rest \<Rightarrow> if c = CHR ''/'' then rest else pathPrefix | [] \<Rightarrow> []))"

definition GET_root ::
  "(string \<Rightarrow> 'k::linorder) \<Rightarrow> 'c Env \<Rightarrow> URLSearchParams \<Rightarrow> JsError + NextResponse \<times> JsError list"
  where
  "GET_root coll env searchParams =
     (case verifyShopifySignature coll (SHOPIFY_CLIENT_SECRET env) searchParams of
        Inl e \<Rightarrow> Inl e
      | Inr verified \<Rightarrow>
          if \<not> verified then Inr (unauthorized, [])
          else
            (case fetchAndRenderPost_root env (slugOfPrefix searchParams) of
               Inr html \<Rightarrow> Inr (ok html, [])
             | Inl error \<Rightarrow> Inr (notFound, [error])))"

section \<open>Notions used to state the properties\<close>

text \<open>The raw angle brackets of a piece of HTML, in order: what a browser reads as tag
  delimiters.\<close>

definition angles :: "string \<Rightarrow> string" where
  "angles s = filter (\<lambda>c. c = CHR ''<'' \<or> c = CHR ''>'') s"

text \<open>The escaping table in the words of the specification.\<close>

definition escapeChar :: "char \<Rightarrow> string" where
  "escapeChar c =
     (if c = CHR ''&'' then ''&amp;''
      else if c = CHR ''<'' then ''&lt;''
      else if c = CHR ''>'' then ''&gt;''
      else if c = CHR 0x22 then ''&quot;''
      else [c])"

text \<open>The escaping step applied to a field that may be absent: the table character by
  character, and the empty string for an absent field.\<close>

definition escapedText :: "string option \<Rightarrow> string" where
  "escapedText v = (case v of None \<Rightarrow> [] | Some s \<Rightarrow> concat (map escapeChar s))"

text \<open>A record with its user-supplied text fields removed: block titles, FAQ questions
  and answers, CTA description and button label, author names, the post title and the
  alternative text of its image. The root route throws on an absent title, so there the
  title is emptied instead.\<close>

definition blankItem :: "FaqItem \<Rightarrow> FaqItem" where
  "blankItem item = item\<lparr>question := None, answer := None\<rparr>"

definition blankBlock :: "'c BodyBlock \<Rightarrow> 'c BodyBlock" where
  "blankBlock block =
     block\<lparr>BodyBlock.title := None, items := map_option (map blankItem) (items block),
           description := None, btnText := None\<rparr>"

definition blankAuthor :: "Author \<Rightarrow> Author" where
  "blankAuthor author = author\<lparr>fullName := None\<rparr>"

definition blankBlog :: "'c Blog \<Rightarrow> 'c Blog" where
  "blankBlog post =
     post\<lparr>Blog.title := None, Blog.body := map_option (map blankBlock) (Blog.body post),
          mainPhotoAlt := None, authors := map_option (map blankAuthor) (authors post)\<rparr>"

definition blankPost :: "'c Post \<Rightarrow> 'c Post" where
  "blankPost post =
     post\<lparr>Post.title := map_option (\<lambda>_. []) (Post.title post), authorName := None\<rparr>"

section \<open>A content store and a signed request to run the handlers on\<close>

text \<open>Rich text is held as the HTML it converts to, and one date is formatted.\<close>

definition demoAuthors :: "Author list" where
  \<open>demoAuthors =
     [\<lparr>fullName = Some ''Ada <Dev>'', slug = Some ''ada'',
       photoUrl = Some ''https://cdn.example/a.png?w=1&h="2"''\<rparr>,
      \<lparr>fullName = Some ''Bob'', slug = Some ''bob'', photoUrl = None\<rparr>]\<close>

definition demoBlog :: "string Blog" where
  \<open>demoBlog =
     \<lparr>Blog.title = Some ''Titre'', shortDescription = None,
      Blog.body = Some
        [\<lparr>block_type = ''ctaBlock'', BodyBlock.title = Some ''A & B'', content = [],
          items = None, description = Some ''<b>gratuit</b>'', btnText = None\<rparr>,
         \<lparr>block_type = ''videoBlock'', BodyBlock.title = Some ''Film'', content = [],
          items = None, description = None, btnText = None\<rparr>,
         \<lparr>block_type = ''wysiwygBlock'', BodyBlock.title = None, content = ''<p>texte</p>'',
          items = None, description = None, btnText = None\<rparr>],
      mainPhotoUrl = Some ''https://cdn.example/p.png?a=1&b="><script>'', mainPhotoAlt = None,
      Blog.publishedAt = None,
      authors = Some [\<lparr>fullName = Some ''Ada <Dev>'', slug = None, photoUrl = None\<rparr>]\<rparr>\<close>

definition demoPost :: "string Post" where
  \<open>demoPost =
     \<lparr>Post.title = Some ''Titre'', Post.body = Some ''<p>texte</p>'',
      mainImageUrl = Some ''https://cdn.example/p.png?a=1&b="><script>'',
      Post.publishedAt = Some ''2024-01-15'', authorName = None\<rparr>\<close>

definition demoClient :: "string Client" where
  "demoClient =
     \<lparr>fetch_authors = Inr (Some demoAuthors),
      fetch_blog = (\<lambda>s. if s = ''mon-article'' then Inr (Some demoBlog) else Inr None),
      fetch_post = (\<lambda>s. if s = ''mon-article'' then Inr (Some demoPost) else Inr None)\<rparr>"

definition demoEnv :: "string Env" where
  "demoEnv =
     \<lparr>SHOPIFY_CLIENT_SECRET = Some ''K'', client = demoClient, toHTML = (\<lambda>c. Inr c),
      toLocaleDateString = (\<lambda>d. if d = ''2024-01-15'' then ''15 janvier 2024'' else ''Invalid Date'')\<rparr>"

text \<open>A blog document with nothing but its slug filled in, and a post whose title is the
  empty string.\<close>

definition untitledBlog :: "string Blog" where
  "untitledBlog =
     \<lparr>Blog.title = None, shortDescription = None, Blog.body = None, mainPhotoUrl = None,
      mainPhotoAlt = None, Blog.publishedAt = None, authors = None\<rparr>"

definition untitledPost :: "string Post" where
  "untitledPost =
     \<lparr>Post.title = Some [], Post.body = None, mainImageUrl = None, Post.publishedAt = None,
      authorName = None\<rparr>"

text \<open>The same with a store that holds nothing.\<close>

definition emptyEnv :: "string Env" where
  "emptyEnv =
     demoEnv\<lparr>client :=
       \<lparr>fetch_authors = Inr (Some []), fetch_blog = (\<lambda>s. Inr None), fetch_post = (\<lambda>s. Inr None)\<rparr>\<rparr>"

text \<open>A request signed with the key \<^verbatim>\<open>K\<close> over \<^verbatim>\<open>path_prefix=/mon-article&Shop=x\<close>, the
  order in which \<^verbatim>\<open>localeCompare\<close> puts the two keys.\<close>

definition signedQuery :: URLSearchParams where
  "signedQuery =
     [(''path_prefix'', ''/mon-article''), (''Shop'', ''x''),
      (''signature'', ''75bd739bd4931cd75db56a9e990b61e8c632353a24f4ea3e9be8646e9f760b89'')]"

text \<open>Blocks, a blog document and a post whose text fields hold the four characters that
  the escaping replaces.\<close>

definition ctaDemo :: "string BodyBlock" where
  \<open>ctaDemo =
     \<lparr>block_type = ''ctaBlock'', BodyBlock.title = Some ''Offre "A & B"'', content = [],
      items = None, description = Some ''<b>gratuit</b>'', btnText = Some ''Voir > ici''\<rparr>\<close>

definition faqDemo :: "string BodyBlock" where
  \<open>faqDemo =
     \<lparr>block_type = ''faqBlock'', BodyBlock.title = Some ''Q & R'', content = [],
      items = Some [\<lparr>question = Some ''1 < 2 ?'', answer = Some ''Oui, "1 < 2"''\<rparr>,
                    \<lparr>question = None, answer = Some ''R&D''\<rparr>],
      description = None, btnText = None\<rparr>\<close>

definition richDemo :: "string BodyBlock" where
  \<open>richDemo =
     \<lparr>block_type = ''quickAnswerBlock'', BodyBlock.title = Some ''<En bref>'',
      content = ''<p>texte</p>'', items = None, description = None, btnText = None\<rparr>\<close>

definition quotedBlog :: "string Blog" where
  \<open>quotedBlog =
     \<lparr>Blog.title = Some ''Tom & "Jerry"'', shortDescription = None,
      Blog.body = Some [ctaDemo, faqDemo, richDemo],
      mainPhotoUrl = Some ''https://cdn.example/p.png'', mainPhotoAlt = Some ''Photo "<1>"'',
      Blog.publishedAt = None,
      authors = Some [\<lparr>fullName = Some ''Ada <Dev>'', slug = None, photoUrl = None\<rparr>,
                      \<lparr>fullName = Some ''R&D'', slug = None, photoUrl = None\<rparr>]\<rparr>\<close>

definition quotedPost :: "string Post" where
  \<open>quotedPost =
     \<lparr>Post.title = Some ''Tom & "Jerry"'', Post.body = Some ''<p>texte</p>'',
      mainImageUrl = Some ''https://cdn.example/p.png'', Post.publishedAt = None,
      authorName = Some ''Ada <Dev>''\<rparr>\<close>

text \<open>An author without a name.\<close>

definition nameless :: Author where
  "nameless = \<lparr>fullName = None, slug = None, photoUrl = None\<rparr>"

text \<open>A runtime with two query objects, the signed request and one without a signature.\<close>

definition demoRuntime :: "(string \<times> bool list) Runtime" where
  "demoRuntime =
     \<lparr>objects = [signedQuery, [(''shop'', ''audacem.myshopify.com''), (''path_prefix'', ''/apps/blog'')]],
      console = [], secretKey = Some ''K'', collation = asciiLetterCollation\<rparr>"

section \<open>Facts about the built-ins\<close>

lemma insertBy_localeCompare:
  "insertBy (\<lambda>(a, _) (b, _). localeCompare coll a b) x ys = insort_key (coll \<circ> fst) x ys"
  by (induction ys) (auto simp: localeCompare_def split: prod.splits)

lemma Array_sort_localeCompare:
  "Array_sort (\<lambda>(a, _) (b, _). localeCompare coll a b) xs = sort_key (coll \<circ> fst) xs"
  by (induction xs) (simp_all add: Array_sort_def insertBy_localeCompare sort_key_def comp_def)

lemma URLSearchParams_get_map_of: "URLSearchParams_get q name = map_of q name"
  by (induction q) auto

lemma URLSearchParams_get_None: "URLSearchParams_get q name = None \<longleftrightarrow> name \<notin> fst ` set q"
  by (simp add: URLSearchParams_get_map_of map_of_eq_None_iff)

subsection \<open>Length of the digest\<close>

text \<open>The hex digest always has 64 characters; in particular it is never empty.\<close>

lemma length_sha_step: "length s = 8 \<Longrightarrow> length (sha_step s t1 t2) = 8"
  by (cases "(s, t1, t2)" rule: sha_step.cases) simp_all

lemma length_sha_round: "length s = 8 \<Longrightarrow> length (sha_round s k w) = 8"
  by (cases "(s, k, w)" rule: sha_round.cases) (simp_all del: sha_step.simps add: length_sha_step)

lemma length_rounds: "length s = 8 \<Longrightarrow> length (rounds ks win s) = 8"
  by (induction ks arbitrary: win s) (simp_all add: length_sha_round)

lemma length_compress: "length hs = 8 \<Longrightarrow> length (compress hs blk) = 8"
  by (simp add: compress_def length_rounds)

lemma length_hash_blocks: "length hs = 8 \<Longrightarrow> length (hash_blocks hs ws) = 8"
  by (induction hs ws rule: hash_blocks.induct) (simp_all add: length_compress)

lemma length_concat_unbe32: "length (concat (map unbe32 ws)) = 4 * length ws"
  by (induction ws) (simp_all add: unbe32_def)

lemma length_sha256: "length (sha256 m) = 32"
  by (simp add: sha256_def length_concat_unbe32 length_hash_blocks H256_def)

lemma length_hex: "length (hex bs) = 2 * length bs"
  by (induction bs) (simp_all add: hex_def)

lemma length_hmacHex: "length (hmacHex key msg) = 64"
  by (simp add: hmacHex_def length_hex hmac_sha256_def Let_def length_sha256)
section \<open>The signature check and the canonical string\<close>

text \<open>The check, read off the parameters as a map: the sorted and joined string of the
  code is the canonical string under the collation.\<close>

lemma sortedParams_spec:
  "sortedParams coll (URLSearchParams_delete query ''signature'') = spec_canonical coll query"
  by (simp add: sortedParams_def spec_canonical_def URLSearchParams_delete_def
      Array_sort_localeCompare)

lemma verify_map_of:
  assumes "map_of query ''signature'' = Some signature"
  shows "verifyShopifySignature coll (Some secret) query =
           Inr (hmacHex secret (spec_canonical coll query) = signature)"
proof (cases "signature = []")
  case True
  have "hmacHex secret (spec_canonical coll query) \<noteq> []"
    using length_hmacHex [of secret "spec_canonical coll query"] by auto
  with True assms show ?thesis
    by (simp add: verifyShopifySignature_def URLSearchParams_get_map_of)
next
  case False
  with assms show ?thesis
    by (simp add: verifyShopifySignature_def URLSearchParams_get_map_of
        createHmac_sha256_hex_def sortedParams_spec)
qed

lemma verify_eq_canonical:
  "verifyShopifySignature coll secret query =
     (case map_of query ''signature'' of
        None \<Rightarrow> Inr False
      | Some signature \<Rightarrow>
          if signature = [] then Inr False
          else case secret of
                 None \<Rightarrow> Inl (TypeError ''The \"key\" argument must be of type string'')
               | Some k \<Rightarrow> Inr (hmacHex k (spec_canonical coll query) = signature))"
  by (simp add: verifyShopifySignature_def URLSearchParams_get_map_of createHmac_sha256_hex_def
      sortedParams_spec split: option.splits)

subsection \<open>Reordering the parameters\<close>

text \<open>A stable sort of a list with pairwise distinct sort keys depends on the multiset of
  its elements only.\<close>

lemma filter_key_singleton:
  "distinct (map f zs) \<Longrightarrow> k \<in> set zs \<Longrightarrow> filter (\<lambda>x. f k = f x) zs = [k]"
proof (induction zs)
  case Nil
  then show ?case by simp
next
  case (Cons z zs)
  show ?case
  proof (cases "k = z")
    case True
    with Cons.prems have "filter (\<lambda>x. f k = f x) zs = []"
      by (auto simp: filter_empty_conv)
    with True show ?thesis by simp
  next
    case False
    with Cons.prems have "k \<in> set zs" and "f z \<noteq> f k"
      by auto
    with Cons show ?thesis by simp
  qed
qed

lemma sort_key_reorder:
  assumes "mset xs = mset ys" and "distinct (map f xs)"
  shows "sort_key f xs = sort_key f ys"
proof (rule properties_for_sort_key)
  have "mset (map f xs) = mset (map f ys)"
    using assms(1) by simp
  with assms(2) have dy: "distinct (map f ys)"
    by (metis mset_eq_imp_distinct_iff)
  show "mset (sort_key f ys) = mset xs"
    using assms by simp
  show "sorted (map f (sort_key f ys))"
    by simp
  fix k assume "k \<in> set (sort_key f ys)"
  then have k: "k \<in> set xs" "k \<in> set (sort_key f ys)"
    using assms(1) by (auto dest: mset_eq_setD)
  have "distinct (map f (sort_key f ys))"
    using dy by (simp add: distinct_map)
  with k assms(2) show "filter (\<lambda>x. f k = f x) (sort_key f ys) = filter (\<lambda>x. f k = f x) xs"
    by (simp add: filter_key_singleton)
qed

lemma spec_canonical_reorder:
  assumes "mset q1 = mset q2" and "distinct (map (ord \<circ> fst) q1)"
  shows "spec_canonical ord q1 = spec_canonical ord q2"
proof -
  let ?P = "\<lambda>(k, v). k \<noteq> ''signature''"
  have "mset (filter ?P q1) = mset (filter ?P q2)"
    using assms(1) by simp
  moreover have "distinct (map (ord \<circ> fst) (filter ?P q1))"
    using assms(2) by (rule distinct_map_filter)
  ultimately show ?thesis
    unfolding spec_canonical_def by (simp add: sort_key_reorder [of "filter ?P q1" "filter ?P q2"])
qed

lemma map_of_reorder:
  assumes "mset q1 = mset q2" and "distinct (map (ord \<circ> fst) q1)"
  shows "map_of q1 = map_of q2"
proof -
  have "distinct (map ord (map fst q1))"
    using assms(2) by simp
  then have d1: "distinct (map fst q1)"
    using distinct_map [of ord "map fst q1"] by blast
  have "mset (map fst q1) = mset (map fst q2)"
    using assms(1) by simp
  with d1 have d2: "distinct (map fst q2)"
    by (metis mset_eq_imp_distinct_iff)
  have "set q1 = set q2"
    using assms(1) by (rule mset_eq_setD)
  with d1 d2 show ?thesis
    using map_of_inject_set [of q1 q2] by blast
qed

lemma verify_reorder_aux:
  assumes "mset q1 = mset q2" and "distinct (map (coll \<circ> fst) q1)"
  shows "verifyShopifySignature coll secret q1 = verifyShopifySignature coll secret q2"
  unfolding verify_eq_canonical spec_canonical_reorder [OF assms] map_of_reorder [OF assms] ..
subsection \<open>The call on the runtime\<close>

text \<open>The call returns what the function of the pairs, the secret and the collation returns,
  and changes nothing but the list of objects, at its end.\<close>

lemma verifyShopifySignature_call_result:
  "fst (verifyShopifySignature_call query rt) =
     verifyShopifySignature (collation rt) (secretKey rt) (objects rt ! query)"
  by (simp add: verifyShopifySignature_call_def verifyShopifySignature_def new_URLSearchParams_def
      delete_in_place_def Let_def split: option.splits sum.splits)

lemma verifyShopifySignature_call_state:
  "\<exists>fresh. snd (verifyShopifySignature_call query rt) = rt\<lparr>objects := objects rt @ fresh\<rparr>"
proof (cases "verifyShopifySignature_call query rt = (Inr False, rt)")
  case True
  then have "snd (verifyShopifySignature_call query rt) = rt\<lparr>objects := objects rt @ []\<rparr>"
    by simp
  then show ?thesis ..
next
  case False
  then have "snd (verifyShopifySignature_call query rt) =
      rt\<lparr>objects := objects rt @ [URLSearchParams_delete (objects rt ! query) ''signature'']\<rparr>"
    by (auto simp: verifyShopifySignature_call_def new_URLSearchParams_def delete_in_place_def
        Let_def split: option.splits sum.splits if_splits)
  then show ?thesis ..
qed

section \<open>Escaping and raw angle brackets\<close>

lemma join_Nil: "join [] xs = concat xs"
  by (induction xs rule: induct_list012) simp_all

lemma replaceAll_append: "replaceAll c r (xs @ ys) = replaceAll c r xs @ replaceAll c r ys"
  by (induction xs) simp_all

lemma replaceAll_concat_map:
  "replaceAll c r (concat (map f s)) = concat (map (\<lambda>x. replaceAll c r (f x)) s)"
  by (induction s) (simp_all add: replaceAll_append)

lemma replaceAll_chars: "replaceAll c r s = concat (map (\<lambda>x. if x = c then r else [x]) s)"
  by (induction s) simp_all

lemma escapeString_chars: "escapeString s = concat (map escapeChar s)"
proof -
  have "replaceAll (CHR 0x22) ''&quot;''
     (replaceAll (CHR ''>'') ''&gt;''
       (replaceAll (CHR ''<'') ''&lt;'' (if x = CHR ''&'' then ''&amp;'' else [x]))) =
     escapeChar x" for x
    by (simp add: escapeChar_def)
  then show ?thesis
    by (simp add: escapeString_def replaceAll_chars [of "CHR ''&''"] replaceAll_concat_map)
qed

lemma escapeHTML_Some: "escapeHTML (Some s) = concat (map escapeChar s)"
  by (simp add: escapeHTML_def escapeString_chars)

lemma escapeHTML_root_Some: "escapeHTML_root (Some s) = Inr (concat (map escapeChar s))"
  by (simp add: escapeHTML_root_def escapeString_chars)

text \<open>The raw angle brackets of the rendered pieces do not depend on the text fields.\<close>

lemma angles_append [simp]: "angles (xs @ ys) = angles xs @ angles ys"
  by (simp add: angles_def)

lemma angles_Nil [simp]: "angles [] = []"
  by (simp add: angles_def)

lemma angles_Cons [simp]:
  "angles (c # s) = (if c = CHR ''<'' \<or> c = CHR ''>'' then [c] else []) @ angles s"
  by (simp add: angles_def)

lemma angles_concat: "angles (concat xss) = concat (map angles xss)"
  by (induction xss) simp_all

lemma angles_escapeChar: "angles (escapeChar c) = []"
  by (simp add: escapeChar_def)

lemma angles_escaped: "angles (concat (map escapeChar s)) = []"
  by (induction s) (simp_all add: angles_escapeChar)

lemma angles_escapeString [simp]: "angles (escapeString s) = []"
  by (simp add: escapeString_chars angles_escaped)

lemma angles_escapeHTML [simp]: "angles (escapeHTML v) = []"
  by (simp add: escapeHTML_def split: option.splits)

lemma angles_join_map:
  "(\<And>x. angles (f x) = angles (g x)) \<Longrightarrow> angles (join sep (map f xs)) = angles (join sep (map g xs))"
  by (induction xs rule: induct_list012) simp_all

lemma angles_renderFaqItem: "angles (renderFaqItem (blankItem item)) = angles (renderFaqItem item)"
  by (simp add: renderFaqItem_def)

lemma angles_renderBlock:
  "map_sum id angles (renderBlock toHTML' (blankBlock block)) =
   map_sum id angles (renderBlock toHTML' block)"
  by (simp add: renderBlock_def blankBlock_def join_Nil angles_concat comp_def
      angles_renderFaqItem split: sum.splits option.splits)
lemma angles_Array_map:
  "map_sum id (\<lambda>parts. angles (concat parts)) (Array_map (renderBlock toHTML') (map blankBlock blocks)) =
   map_sum id (\<lambda>parts. angles (concat parts)) (Array_map (renderBlock toHTML') blocks)"
proof (induction blocks)
  case Nil
  show ?case by simp
next
  case (Cons b bs)
  from angles_renderBlock [of toHTML' b] Cons show ?case
    by (auto split: sum.splits)
qed

lemma angles_renderBody:
  "map_sum id angles (renderBody toHTML' (map_option (map blankBlock) body')) =
   map_sum id angles (renderBody toHTML' body')"
proof (cases body')
  case None
  then show ?thesis by (simp add: renderBody_def)
next
  case (Some blocks)
  from angles_Array_map [of toHTML' blocks] Some show ?thesis
    by (auto simp: renderBody_def join_Nil split: sum.splits)
qed

lemma angles_imgTag: "angles (imgTag url (escapeHTML v)) = angles (imgTag url [])"
  by (simp add: imgTag_def angles_concat)

lemma angles_authorCard: "angles (authorCard (blankAuthor author)) = angles (authorCard author)"
  by (simp add: authorCard_def blankAuthor_def angles_concat angles_imgTag split: option.splits)

lemma angles_authorListDocument:
  "angles (authorListDocument (map blankAuthor authors')) = angles (authorListDocument authors')"
  using angles_join_map [of "\<lambda>a. authorCard (blankAuthor a)" authorCard "[]" authors']
  by (simp add: authorListDocument_def angles_authorCard comp_def)

lemma angles_metaDate: "angles (metaDate d) = angles d"
  by (simp add: metaDate_def)

lemma angles_authorNames [simp]: "angles (authorNames as) = []"
proof (cases as)
  case None
  then show ?thesis by (simp add: authorNames_def)
next
  case (Some xs)
  have "angles (join '', '' (map (\<lambda>a. escapeHTML (fullName a)) xs)) = []"
    by (induction xs rule: induct_list012) simp_all
  with Some show ?thesis by (simp add: authorNames_def)
qed

lemma angles_metaAuthors: "angles (metaAuthors names) = angles names"
  by (simp add: metaAuthors_def)

lemma angles_mainPhoto: "angles (mainPhoto (blankBlog post)) = angles (mainPhoto post)"
  by (simp add: mainPhoto_def blankBlog_def angles_imgTag split: option.splits)

lemma angles_renderBlog:
  "map_sum id angles (renderBlog toHTML' fmt (blankBlog post)) =
   map_sum id angles (renderBlog toHTML' fmt post)"
proof -
  have b: "Blog.body (blankBlog post) = map_option (map blankBlock) (Blog.body post)"
    and d: "Blog.publishedAt (blankBlog post) = Blog.publishedAt post"
    by (simp_all add: blankBlog_def)
  from angles_renderBody [of toHTML' "Blog.body post"] show ?thesis
    by (auto simp: renderBlog_def b d blogDocument_def angles_metaDate angles_metaAuthors
        angles_mainPhoto split: sum.splits)
qed

lemma angles_renderPost_root:
  "map_sum id angles (renderPost_root toHTML' fmt (blankPost post)) =
   map_sum id angles (renderPost_root toHTML' fmt post)"
proof (cases "Post.title post")
  case None
  then show ?thesis
    by (simp add: renderPost_root_def blankPost_def escapeHTML_root_def split: sum.splits)
next
  case (Some t)
  then show ?thesis
    by (simp add: renderPost_root_def blankPost_def escapeHTML_root_Some postDocument_def
        postAuthor_def mainImage_def angles_metaDate angles_escaped imgTag_def
        split: sum.splits option.splits)
qed


section \<open>The rendered pieces, field by field\<close>

text \<open>Each renderer gives its fixed markup with the escaped fields in their places.\<close>

lemma escapeHTML_escapedText: "escapeHTML v = escapedText v"
  by (simp add: escapeHTML_def escapedText_def escapeString_chars split: option.splits)

lemma authorCard_text:
  "authorCard =
     (\<lambda>author.
        ''\<newline>    <div class=\"author-card\">\<newline>      '' @
        (case photoUrl author of
           None \<Rightarrow> []
         | Some url \<Rightarrow>
             if url = [] then []
             else ''<img src=\"'' @ url @ ''\" alt=\"'' @
                  escapedText (fullName author) @ ''\">'') @
        ''\<newline>      <h2>'' @ escapedText (fullName author) @
        ''</h2>\<newline>    </div>\<newline>  '')"
  by (rule ext) (simp add: authorCard_def imgTag_def escapeHTML_escapedText split: option.splits)

lemma no_card_head: "\<not> sublist ''<div class=\"author-card\">'' authorListHead"
  by (simp add: authorListHead_def sublist_Cons_right)

lemma no_card_tail: "\<not> sublist ''<div class=\"author-card\">'' authorListTail"
  by (simp add: authorListTail_def sublist_Cons_right)

lemma angles_escapedText: "angles (escapedText v) = []"
  by (simp add: escapedText_def angles_escaped split: option.splits)

lemma renderFaqItem_text:
  "renderFaqItem item =
     ''\<newline>            <div class=\"faq-item\">\<newline>              <strong>'' @
     escapedText (question item) @
     ''</strong>\<newline>              <p>'' @
     escapedText (answer item) @
     ''</p>\<newline>            </div>\<newline>          ''"
  by (simp add: renderFaqItem_def escapeHTML_escapedText)

lemma renderBlock_cta:
  "block_type block = ''ctaBlock'' \<Longrightarrow>
   renderBlock toHTML' block =
     Inr (''<section>\<newline>          <h2>'' @ escapedText (BodyBlock.title block) @
          ''</h2>\<newline>          <p>'' @ escapedText (description block) @
          ''</p>\<newline>          <p><strong>'' @ escapedText (btnText block) @
          ''</strong></p>\<newline>        </section>'')"
  by (simp add: renderBlock_def escapeHTML_escapedText)

lemma renderBlock_faq:
  "block_type block = ''faqBlock'' \<Longrightarrow> items block = Some its \<Longrightarrow>
   renderBlock toHTML' block =
     Inr (''<section>\<newline>          <h2>'' @ escapedText (BodyBlock.title block) @
          ''</h2>\<newline>          '' @ concat (map renderFaqItem its) @
          ''\<newline>        </section>'')"
  by (simp add: renderBlock_def escapeHTML_escapedText join_Nil)

lemma renderBlock_rich:
  "block_type block = ''wysiwygBlock'' \<or> block_type block = ''quickAnswerBlock'' \<Longrightarrow>
   renderBlock toHTML' block =
     map_sum id
       (\<lambda>html. ''<section>\<newline>          <h2>'' @ escapedText (BodyBlock.title block) @
          ''</h2>\<newline>          '' @ html @ ''\<newline>        </section>'')
       (toHTML' (content block))"
  by (auto simp: renderBlock_def escapeHTML_escapedText split: sum.splits)

lemma renderBody_parts:
  "renderBody toHTML' (Some blocks) = map_sum id concat (Array_map (renderBlock toHTML') blocks)"
  by (simp add: renderBody_def join_Nil split: sum.splits)

lemma authorNames_text:
  "authorNames as =
     (case as of None \<Rightarrow> [] | Some authors' \<Rightarrow> join '', '' (map (\<lambda>a. escapedText (fullName a)) authors'))"
  by (simp add: authorNames_def escapeHTML_escapedText split: option.splits)

lemma mainPhoto_text:
  "mainPhoto post =
     (case mainPhotoUrl post of
        None \<Rightarrow> []
      | Some url \<Rightarrow>
          if url = [] then []
          else ''<img src=\"'' @ url @ ''\" alt=\"'' @
               escapedText (if truthy (mainPhotoAlt post) then mainPhotoAlt post else Blog.title post) @
               ''\">'')"
  by (simp add: mainPhoto_def imgTag_def escapeHTML_escapedText split: option.splits)

lemma renderBlog_text:
  "renderBlog toHTML' fmt post =
     map_sum id
       (\<lambda>bodyHTML.
          docHead @ escapedText (Blog.title post) @ blogStyle @ escapedText (Blog.title post) @
          metaOpen @ metaDate (publishedDate fmt (Blog.publishedAt post)) @ metaSep @
          (if authorNames (authors post) = [] then []
           else '' '' @ [CHR 0xC2, CHR 0xB7] @ '' Par '' @ authorNames (authors post)) @
          metaClose @ mainPhoto post @ contentOpen @ bodyHTML @ docTail)
       (renderBody toHTML' (Blog.body post))"
  by (simp add: renderBlog_def blogDocument_def escapeHTML_escapedText metaAuthors_def
      split: sum.splits)

lemma authorListDocument_text:
  "authorListDocument authors' = authorListHead @ concat (map authorCard authors') @ authorListTail"
  by (simp add: authorListDocument_def join_Nil)

lemma renderPost_root_text:
  "Post.title post = Some t \<Longrightarrow>
   renderPost_root toHTML' fmt post =
     map_sum id
       (\<lambda>bodyHTML.
          docHead @ escapedText (Some t) @ postStyle @ escapedText (Some t) @
          metaOpen @ metaDate (publishedDate fmt (Post.publishedAt post)) @ metaSep @
          (if truthy (authorName post)
           then '' '' @ [CHR 0xC2, CHR 0xB7] @ '' Par '' @ escapedText (authorName post) else []) @
          metaClose @
          (case mainImageUrl post of
             None \<Rightarrow> []
           | Some url \<Rightarrow>
               if url = [] then []
               else ''<img src=\"'' @ url @ ''\" alt=\"'' @ escapedText (Some t) @ ''\">'') @
          contentOpen @ bodyHTML @ docTail)
       (case Post.body post of None \<Rightarrow> Inr [] | Some b \<Rightarrow> toHTML' b)"
  by (simp add: renderPost_root_def escapeHTML_root_Some postDocument_def escapedText_def
      postAuthor_def mainImage_def imgTag_def truthy_def escapeString_chars
      split: sum.splits option.splits)

lemma escapeHTML_falsy: "\<not> truthy v \<Longrightarrow> escapeHTML v = []"
  by (auto simp: truthy_def escapeHTML_def split: option.splits)

lemma metaAuthors_omitted:
  assumes "authors post = None \<or> authors post = Some [] \<or>
    (\<exists>a. authors post = Some [a] \<and> \<not> truthy (fullName a))"
  shows "metaAuthors (authorNames (authors post)) = []"
  using assms by (auto simp: metaAuthors_def authorNames_def escapeHTML_falsy)

section \<open>Evaluating the digest\<close>

text \<open>Rewrite rules that let the simplifier run SHA-256 on numerals: rotations by the
  constants in use, additions taken modulo \<open>2 ^ 32\<close> once per sum, and bitwise operations
  on the binary representation.\<close>

lemma replicate_unfold: "replicate n x = (if n = 0 then [] else x # replicate (n - 1) x)"
  by (cases n) simp_all

lemma rotr_consts:
  "rotr 2 x = x div 4 + x mod 4 * 1073741824"
  "rotr 6 x = x div 64 + x mod 64 * 67108864"
  "rotr 7 x = x div 128 + x mod 128 * 33554432"
  "rotr 11 x = x div 2048 + x mod 2048 * 2097152"
  "rotr 13 x = x div 8192 + x mod 8192 * 524288"
  "rotr 17 x = x div 131072 + x mod 131072 * 32768"
  "rotr 18 x = x div 262144 + x mod 262144 * 16384"
  "rotr 19 x = x div 524288 + x mod 524288 * 8192"
  "rotr 22 x = x div 4194304 + x mod 4194304 * 1024"
  "rotr 25 x = x div 33554432 + x mod 33554432 * 128"
  by (simp_all add: rotr_def)

lemma ssig_consts:
  "ssig0 x = rotr 7 x XOR rotr 18 x XOR x div 8"
  "ssig1 x = rotr 17 x XOR rotr 19 x XOR x div 1024"
  by (simp_all add: ssig0_def ssig1_def)

lemma add32_fuse: "add32 (add32 x y) z = add32 (x + y) z" "add32 x (add32 y z) = add32 x (y + z)"
  by (simp_all add: add32_def mod_simps)

lemmas sha_eval = add32_fuse add32_def rotr_consts Ch_def Maj_def bsig0_def bsig1_def ssig_consts
  pad_def unbe32_def sha256_def next_w_def replicate_unfold numeral_xor_num numeral_and_num
  K256_def H256_def

text \<open>The digests of four messages under the key \<^verbatim>\<open>K\<close>, as \<^verbatim>\<open>crypto\<close> computes them. The
  two compressions of the key blocks are shared.\<close>

lemma ipad_state_K:
  "compress
      [1779033703, 3144134277, 1013904242, 2773480762, 1359893119, 2600822924, 528734635,
      1541459225]
      [2100704822, 909522486, 909522486, 909522486, 909522486, 909522486, 909522486,
      909522486, 909522486, 909522486, 909522486, 909522486, 909522486, 909522486, 909522486,
      909522486] =
      [1748502477, 2550155863, 2765385903, 3973439727, 255261005, 1430208917, 4034523769,
      621150903]"
  by (simp add: sha_eval compress_def del: xor_numerals(3,4,6,7) and_numerals(3,4,6,7))

lemma opad_state_K:
  "compress
      [1779033703, 3144134277, 1013904242, 2773480762, 1359893119, 2600822924, 528734635,
      1541459225]
      [391928924, 1549556828, 1549556828, 1549556828, 1549556828, 1549556828, 1549556828,
      1549556828, 1549556828, 1549556828, 1549556828, 1549556828, 1549556828, 1549556828,
      1549556828, 1549556828] =
      [817711463, 191886553, 2018176698, 3751981275, 269964197, 3489753327, 3058690584,
      1747750949]"
  by (simp add: sha_eval compress_def del: xor_numerals(3,4,6,7) and_numerals(3,4,6,7))

lemma hmacHex_K_signed:
  "hmacHex ''K'' ''path_prefix=/mon-article&Shop=x'' =
     ''75bd739bd4931cd75db56a9e990b61e8c632353a24f4ea3e9be8646e9f760b89''"
proof -
  have inner: "sha256
      [125, 54, 54, 54, 54, 54, 54, 54, 54, 54, 54, 54, 54, 54, 54, 54, 54, 54, 54, 54, 54,
      54, 54, 54, 54, 54, 54, 54, 54, 54, 54, 54, 54, 54, 54, 54, 54, 54, 54, 54, 54, 54, 54,
      54, 54, 54, 54, 54, 54, 54, 54, 54, 54, 54, 54, 54, 54, 54, 54, 54, 54, 54, 54, 54, 112,
      97, 116, 104, 95, 112, 114, 101, 102, 105, 120, 61, 47, 109, 111, 110, 45, 97, 114, 116,
      105, 99, 108, 101, 38, 83, 104, 111, 112, 61, 120] =
      [184, 161, 68, 232, 250, 182, 145, 80, 190, 119, 222, 40, 181, 248, 184, 38, 122, 101,
      165, 10, 170, 75, 89, 248, 168, 236, 254, 239, 193, 52, 157, 109]"
    apply (simp add: sha_eval ipad_state_K)
    apply (simp add: sha_eval compress_def del: xor_numerals(3,4,6,7) and_numerals(3,4,6,7))
    done
  have outer: "sha256
      [23, 92, 92, 92, 92, 92, 92, 92, 92, 92, 92, 92, 92, 92, 92, 92, 92, 92, 92, 92, 92, 92,
      92, 92, 92, 92, 92, 92, 92, 92, 92, 92, 92, 92, 92, 92, 92, 92, 92, 92, 92, 92, 92, 92,
      92, 92, 92, 92, 92, 92, 92, 92, 92, 92, 92, 92, 92, 92, 92, 92, 92, 92, 92, 92, 184,
      161, 68, 232, 250, 182, 145, 80, 190, 119, 222, 40, 181, 248, 184, 38, 122, 101, 165,
      10, 170, 75, 89, 248, 168, 236, 254, 239, 193, 52, 157, 109] =
      [117, 189, 115, 155, 212, 147, 28, 215, 93, 181, 106, 158, 153, 11, 97, 232, 198, 50,
      53, 58, 36, 244, 234, 62, 155, 232, 100, 110, 159, 118, 11, 137]"
    apply (simp add: sha_eval opad_state_K)
    apply (simp add: sha_eval compress_def del: xor_numerals(3,4,6,7) and_numerals(3,4,6,7))
    done
  show ?thesis
    by (simp add: hmacHex_def hmac_sha256_def bytes_def Let_def replicate_unfold inner outer
        hex_def hexdigit_def)
qed

lemma hmacHex_K_byte_order:
  "hmacHex ''K'' ''Shop=x&path_prefix=/mon-article'' =
     ''1044dbdac7646c61f659b40a739660dca30d72894f99e6a3bbc1cf97dc937ef2''"
proof -
  have inner: "sha256
      [125, 54, 54, 54, 54, 54, 54, 54, 54, 54, 54, 54, 54, 54, 54, 54, 54, 54, 54, 54, 54,
      54, 54, 54, 54, 54, 54, 54, 54, 54, 54, 54, 54, 54, 54, 54, 54, 54, 54, 54, 54, 54, 54,
      54, 54, 54, 54, 54, 54, 54, 54, 54, 54, 54, 54, 54, 54, 54, 54, 54, 54, 54, 54, 54, 83,
      104, 111, 112, 61, 120, 38, 112, 97, 116, 104, 95, 112, 114, 101, 102, 105, 120, 61, 47,
      109, 111, 110, 45, 97, 114, 116, 105, 99, 108, 101] =
      [155, 240, 100, 234, 238, 109, 45, 154, 219, 123, 97, 39, 110, 204, 50, 250, 160, 249,
      171, 159, 192, 7, 31, 121, 12, 71, 129, 117, 120, 52, 230, 46]"
    apply (simp add: sha_eval ipad_state_K)
    apply (simp add: sha_eval compress_def del: xor_numerals(3,4,6,7) and_numerals(3,4,6,7))
    done
  have outer: "sha256
      [23, 92, 92, 92, 92, 92, 92, 92, 92, 92, 92, 92, 92, 92, 92, 92, 92, 92, 92, 92, 92, 92,
      92, 92, 92, 92, 92, 92, 92, 92, 92, 92, 92, 92, 92, 92, 92, 92, 92, 92, 92, 92, 92, 92,
      92, 92, 92, 92, 92, 92, 92, 92, 92, 92, 92, 92, 92, 92, 92, 92, 92, 92, 92, 92, 155,
      240, 100, 234, 238, 109, 45, 154, 219, 123, 97, 39, 110, 204, 50, 250, 160, 249, 171,
      159, 192, 7, 31, 121, 12, 71, 129, 117, 120, 52, 230, 46] =
      [16, 68, 219, 218, 199, 100, 108, 97, 246, 89, 180, 10, 115, 150, 96, 220, 163, 13, 114,
      137, 79, 153, 230, 163, 187, 193, 207, 151, 220, 147, 126, 242]"
    apply (simp add: sha_eval opad_state_K)
    apply (simp add: sha_eval compress_def del: xor_numerals(3,4,6,7) and_numerals(3,4,6,7))
    done
  show ?thesis
    by (simp add: hmacHex_def hmac_sha256_def bytes_def Let_def replicate_unfold inner outer
        hex_def hexdigit_def)
qed

lemma hmacHex_K_a1a2:
  "hmacHex ''K'' ''a=1&a=2'' =
     ''283f5dbb3028f61450b47a2337aed245f035c971e35ade76d73b9a73b7e218ae''"
proof -
  have inner: "sha256
      [125, 54, 54, 54, 54, 54, 54, 54, 54, 54, 54, 54, 54, 54, 54, 54, 54, 54, 54, 54, 54,
      54, 54, 54, 54, 54, 54, 54, 54, 54, 54, 54, 54, 54, 54, 54, 54, 54, 54, 54, 54, 54, 54,
      54, 54, 54, 54, 54, 54, 54, 54, 54, 54, 54, 54, 54, 54, 54, 54, 54, 54, 54, 54, 54, 97,
      61, 49, 38, 97, 61, 50] =
      [191, 205, 105, 152, 109, 178, 131, 224, 65, 44, 36, 201, 186, 132, 163, 99, 109, 61,
      226, 72, 54, 12, 66, 38, 27, 111, 8, 115, 77, 72, 221, 128]"
    apply (simp add: sha_eval ipad_state_K)
    apply (simp add: sha_eval compress_def del: xor_numerals(3,4,6,7) and_numerals(3,4,6,7))
    done
  have outer: "sha256
      [23, 92, 92, 92, 92, 92, 92, 92, 92, 92, 92, 92, 92, 92, 92, 92, 92, 92, 92, 92, 92, 92,
      92, 92, 92, 92, 92, 92, 92, 92, 92, 92, 92, 92, 92, 92, 92, 92, 92, 92, 92, 92, 92, 92,
      92, 92, 92, 92, 92, 92, 92, 92, 92, 92, 92, 92, 92, 92, 92, 92, 92, 92, 92, 92, 191,
      205, 105, 152, 109, 178, 131, 224, 65, 44, 36, 201, 186, 132, 163, 99, 109, 61, 226, 72,
      54, 12, 66, 38, 27, 111, 8, 115, 77, 72, 221, 128] =
      [40, 63, 93, 187, 48, 40, 246, 20, 80, 180, 122, 35, 55, 174, 210, 69, 240, 53, 201,
      113, 227, 90, 222, 118, 215, 59, 154, 115, 183, 226, 24, 174]"
    apply (simp add: sha_eval opad_state_K)
    apply (simp add: sha_eval compress_def del: xor_numerals(3,4,6,7) and_numerals(3,4,6,7))
    done
  show ?thesis
    by (simp add: hmacHex_def hmac_sha256_def bytes_def Let_def replicate_unfold inner outer
        hex_def hexdigit_def)
qed

lemma hmacHex_K_a2a1:
  "hmacHex ''K'' ''a=2&a=1'' =
     ''74f2a870b2b6585964a1510d4976baa68658ea7756b939c41ba041339912381a''"
proof -
  have inner: "sha256
      [125, 54, 54, 54, 54, 54, 54, 54, 54, 54, 54, 54, 54, 54, 54, 54, 54, 54, 54, 54, 54,
      54, 54, 54, 54, 54, 54, 54, 54, 54, 54, 54, 54, 54, 54, 54, 54, 54, 54, 54, 54, 54, 54,
      54, 54, 54, 54, 54, 54, 54, 54, 54, 54, 54, 54, 54, 54, 54, 54, 54, 54, 54, 54, 54, 97,
      61, 50, 38, 97, 61, 49] =
      [15, 72, 151, 226, 179, 151, 7, 227, 107, 171, 21, 241, 223, 252, 113, 248, 160, 59,
      145, 168, 62, 236, 88, 6, 43, 102, 249, 68, 193, 123, 97, 216]"
    apply (simp add: sha_eval ipad_state_K)
    apply (simp add: sha_eval compress_def del: xor_numerals(3,4,6,7) and_numerals(3,4,6,7))
    done
  have outer: "sha256
      [23, 92, 92, 92, 92, 92, 92, 92, 92, 92, 92, 92, 92, 92, 92, 92, 92, 92, 92, 92, 92, 92,
      92, 92, 92, 92, 92, 92, 92, 92, 92, 92, 92, 92, 92, 92, 92, 92, 92, 92, 92, 92, 92, 92,
      92, 92, 92, 92, 92, 92, 92, 92, 92, 92, 92, 92, 92, 92, 92, 92, 92, 92, 92, 92, 15, 72,
      151, 226, 179, 151, 7, 227, 107, 171, 21, 241, 223, 252, 113, 248, 160, 59, 145, 168,
      62, 236, 88, 6, 43, 102, 249, 68, 193, 123, 97, 216] =
      [116, 242, 168, 112, 178, 182, 88, 89, 100, 161, 81, 13, 73, 118, 186, 166, 134, 88,
      234, 119, 86, 185, 57, 196, 27, 160, 65, 51, 153, 18, 56, 26]"
    apply (simp add: sha_eval opad_state_K)
    apply (simp add: sha_eval compress_def del: xor_numerals(3,4,6,7) and_numerals(3,4,6,7))
    done
  show ?thesis
    by (simp add: hmacHex_def hmac_sha256_def bytes_def Let_def replicate_unfold inner outer
        hex_def hexdigit_def)
qed


section \<open>Facts about the renderer and the handlers\<close>

lemma signedQuery_verified:
  "verifyShopifySignature asciiLetterCollation (SHOPIFY_CLIENT_SECRET demoEnv) signedQuery = Inr True"
  by (simp add: verify_eq_canonical spec_canonical_def asciiLetterCollation_def toLowerCase_def
      hmacHex_K_signed signedQuery_def demoEnv_def)

lemma Array_map_append:
  "Array_map f (xs @ ys) =
     (case Array_map f xs of
        Inl e \<Rightarrow> Inl e
      | Inr us \<Rightarrow> (case Array_map f ys of Inl e \<Rightarrow> Inl e | Inr vs \<Rightarrow> Inr (us @ vs)))"
  by (induction xs) (simp_all split: sum.splits)

lemma renderBlock_unknown:
  "block_type block \<notin> {''wysiwygBlock'', ''faqBlock'', ''ctaBlock'', ''quickAnswerBlock''} \<Longrightarrow>
   renderBlock toHTML' block = Inr []"
  by (simp add: renderBlock_def)

lemma GET_verified:
  assumes "verifyShopifySignature coll (SHOPIFY_CLIENT_SECRET env) searchParams = Inr True"
  shows "GET coll env searchParams path =
           (case GET_html env (slugOf path) of
              Inr html \<Rightarrow> Inr (ok html, [])
            | Inl error \<Rightarrow> Inr (notFound, [error]))"
  using assms by (simp add: GET_def)

lemma GET_root_verified:
  assumes "verifyShopifySignature coll (SHOPIFY_CLIENT_SECRET env) searchParams = Inr True"
  shows "GET_root coll env searchParams =
           (case fetchAndRenderPost_root env (slugOfPrefix searchParams) of
              Inr html \<Rightarrow> Inr (ok html, [])
            | Inl error \<Rightarrow> Inr (notFound, [error]))"
  using assms by (simp add: GET_root_def)


subsection \<open>Substrings of the documents\<close>

lemma sublist_inside: "sublist x m \<Longrightarrow> sublist x (a @ m @ b)"
proof -
  assume "sublist x m"
  then obtain ps ss where "m = ps @ x @ ss"
    unfolding sublist_def by blast
  then have "a @ m @ b = (a @ ps) @ x @ (ss @ b)"
    by simp
  then show ?thesis
    unfolding sublist_def by blast
qed

lemma sublist_imgTag: "sublist (''<img src=\"'' @ url @ ''\" alt=\"'') (imgTag url alt)"
proof -
  have "imgTag url alt = [] @ (''<img src=\"'' @ url @ ''\" alt=\"'') @ (alt @ ''\">'')"
    by (simp add: imgTag_def)
  then show ?thesis
    unfolding sublist_def by blast
qed

lemma sublist_blogDocument: "sublist x img \<Longrightarrow> sublist x (blogDocument t d n img b)"
proof -
  assume "sublist x img"
  then have "sublist x
      ((docHead @ t @ blogStyle @ t @ metaOpen @ d @ metaSep @ n @ metaClose) @ img @
       (contentOpen @ b @ docTail))"
    by (rule sublist_inside)
  then show ?thesis by (simp add: blogDocument_def)
qed

lemma sublist_postDocument: "sublist x img \<Longrightarrow> sublist x (postDocument t d n img b)"
proof -
  assume "sublist x img"
  then have "sublist x
      ((docHead @ t @ postStyle @ t @ metaOpen @ d @ metaSep @ n @ metaClose) @ img @
       (contentOpen @ b @ docTail))"
    by (rule sublist_inside)
  then show ?thesis by (simp add: postDocument_def)
qed

lemma sublist_authorCard:
  assumes "photoUrl author = Some url" and "url \<noteq> []"
  shows "sublist (''<img src=\"'' @ url @ ''\" alt=\"'') (authorCard author)"
proof -
  have eq: "authorCard author =
      (''\<newline>    <div class=\"author-card\">\<newline>      '') @
      imgTag url (escapeHTML (fullName author)) @
      (''\<newline>      <h2>'' @ escapeHTML (fullName author) @ ''</h2>\<newline>    </div>\<newline>  '')"
    using assms by (simp add: authorCard_def)
  show ?thesis
    unfolding eq by (rule sublist_inside [OF sublist_imgTag])
qed

lemma sublist_authorListDocument:
  assumes "author \<in> set authors'" and "sublist x (authorCard author)"
  shows "sublist x (authorListDocument authors')"
proof -
  from assms(1) obtain xs ys where "authors' = xs @ author # ys"
    by (auto simp: in_set_conv_decomp)
  then have eq: "authorListDocument authors' =
      (authorListHead @ concat (map authorCard xs)) @ authorCard author @
      (concat (map authorCard ys) @ authorListTail)"
    by (simp add: authorListDocument_def join_Nil)
  show ?thesis
    unfolding eq by (rule sublist_inside [OF assms(2)])
qed

lemma renderBlog_Inr:
  "renderBlog toHTML' fmt post = Inr doc \<Longrightarrow>
   \<exists>t d n b. doc = blogDocument t d n (mainPhoto post) b"
  by (auto simp: renderBlog_def split: sum.splits)

lemma mainPhoto_url:
  "mainPhotoUrl post = Some url \<Longrightarrow> url \<noteq> [] \<Longrightarrow> \<exists>alt. mainPhoto post = imgTag url alt"
  by (auto simp: mainPhoto_def)

lemma renderPost_root_Inr:
  "renderPost_root toHTML' fmt post = Inr doc \<Longrightarrow> mainImageUrl post = Some url \<Longrightarrow> url \<noteq> [] \<Longrightarrow>
   \<exists>t d n alt b. doc = postDocument t d n (imgTag url alt) b"
  by (auto simp: renderPost_root_def mainImage_def split: sum.splits) blast


subsection \<open>The example store\<close>

lemma emptyEnv_verified:
  "verifyShopifySignature asciiLetterCollation (SHOPIFY_CLIENT_SECRET emptyEnv) signedQuery = Inr True"
  using signedQuery_verified by (simp add: emptyEnv_def demoEnv_def)


lemma demoPost_document:
  "fetchAndRenderPost_root demoEnv (slugOfPrefix signedQuery) =
     Inr (postDocument ''Titre'' (metaDate ''15 janvier 2024'') []
            (imgTag ''https://cdn.example/p.png?a=1&b=\"><script>'' ''Titre'') ''<p>texte</p>'')"
  by (simp add: slugOfPrefix_def signedQuery_def fetchAndRenderPost_root_def demoEnv_def
      demoClient_def demoPost_def renderPost_root_def escapeHTML_root_def escapeString_def
      publishedDate_def postAuthor_def mainImage_def)


lemma demoBlog_document:
  "renderBlog (\<lambda>c. Inr c)
     (\<lambda>d. if d = ''2024-01-15'' then ''15 janvier 2024'' else ''Invalid Date'') demoBlog =
     Inr (blogDocument ''Titre'' [] ('' '' @ [CHR 0xC2, CHR 0xB7] @ '' Par Ada &lt;Dev&gt;'')
            (imgTag ''https://cdn.example/p.png?a=1&b=\"><script>'' ''Titre'')
            (concat
              [''<section>\<newline>'',
               ''          <h2>A &amp; B</h2>\<newline>'',
               ''          <p>&lt;b&gt;gratuit&lt;/b&gt;</p>\<newline>'',
               ''          <p><strong></strong></p>\<newline>'',
               ''        </section>'',
               ''<section>\<newline>'',
               ''          <h2></h2>\<newline>'',
               ''          <p>texte</p>\<newline>'',
               ''        </section>'']))"
  by (simp add: renderBlog_def demoBlog_def renderBody_def renderBlock_def escapeHTML_def
      escapeString_def publishedDate_def metaDate_def authorNames_def metaAuthors_def
      mainPhoto_def truthy_def)


section \<open>Signature verification\<close>

text \<open>
  Claim C1, with the order the code sorts by. For every map of query parameters that
  contains a \<^verbatim>\<open>signature\<close> field and every shared secret, \<open>verifyShopifySignature\<close>
  returns true if and only if the lowercase hex HMAC-SHA256 digest, keyed with the secret,
  of the canonical string is exactly the supplied signature value, where the canonical
  string is formed by removing the \<^verbatim>\<open>signature\<close> field, sorting the remaining parameters
  by key in the order of \<^verbatim>\<open>localeCompare\<close> (the collation of the runtime's locale, which is
  not the byte-wise order), and joining them as \<^verbatim>\<open>key=value\<close> pairs with \<^verbatim>\<open>&\<close>.
\<close>

theorem verifyShopifySignature_canonical:
  assumes "distinct (map fst query)" and "(''signature'', signature) \<in> set query"
  shows "verifyShopifySignature coll (Some secret) query =
           Inr (hmacHex secret (spec_canonical coll query) = signature)"
  using assms by (intro verify_map_of map_of_is_SomeI)

theorem verifyShopifySignature_canonical_witness:
  "distinct (map fst [(''shop'', ''s''), (''Path'', ''p''), (''signature'', ''00'')]) \<and>
   (''signature'', ''00'') \<in> set [(''shop'', ''s''), (''Path'', ''p''), (''signature'', ''00'')] \<and>
   verifyShopifySignature asciiLetterCollation (Some ''K'')
     [(''shop'', ''s''), (''Path'', ''p''), (''signature'', ''00'')] =
     Inr (hmacHex ''K'' ''Path=p&shop=s'' = ''00'')"
  using verifyShopifySignature_canonical
    [of "[(''shop'', ''s''), (''Path'', ''p''), (''signature'', ''00'')]" "''00''"
      asciiLetterCollation "''K''"]
  by (simp add: spec_canonical_def asciiLetterCollation_def toLowerCase_def)

text \<open>
  Claim C1 as stated, with the byte-wise lexicographic order, fails on a request with the
  keys \<^verbatim>\<open>path_prefix\<close> and \<^verbatim>\<open>Shop\<close>: \<^verbatim>\<open>localeCompare\<close> puts \<^verbatim>\<open>path_prefix\<close> first, the
  byte order puts \<^verbatim>\<open>Shop\<close> first. The request carries the digest of
  \<^verbatim>\<open>path_prefix=/mon-article&Shop=x\<close> and is accepted, although the digest of the
  byte-ordered string \<^verbatim>\<open>Shop=x&path_prefix=/mon-article\<close> is a different one.
\<close>

theorem verifyShopifySignature_byte_order_counterexample:
  "distinct (map fst
     [(''path_prefix'', ''/mon-article''), (''Shop'', ''x''),
      (''signature'', ''75bd739bd4931cd75db56a9e990b61e8c632353a24f4ea3e9be8646e9f760b89'')]) \<and>
   verifyShopifySignature asciiLetterCollation (Some ''K'')
     [(''path_prefix'', ''/mon-article''), (''Shop'', ''x''),
      (''signature'', ''75bd739bd4931cd75db56a9e990b61e8c632353a24f4ea3e9be8646e9f760b89'')] =
     Inr True \<and>
   spec_canonical (\<lambda>k. k)
     [(''path_prefix'', ''/mon-article''), (''Shop'', ''x''),
      (''signature'', ''75bd739bd4931cd75db56a9e990b61e8c632353a24f4ea3e9be8646e9f760b89'')] =
     ''Shop=x&path_prefix=/mon-article'' \<and>
   hmacHex ''K'' (spec_canonical (\<lambda>k. k)
     [(''path_prefix'', ''/mon-article''), (''Shop'', ''x''),
      (''signature'', ''75bd739bd4931cd75db56a9e990b61e8c632353a24f4ea3e9be8646e9f760b89'')]) \<noteq>
     ''75bd739bd4931cd75db56a9e990b61e8c632353a24f4ea3e9be8646e9f760b89''"
proof -
  have c: "spec_canonical (\<lambda>k. k)
     [(''path_prefix'', ''/mon-article''), (''Shop'', ''x''),
      (''signature'', ''75bd739bd4931cd75db56a9e990b61e8c632353a24f4ea3e9be8646e9f760b89'')] =
     ''Shop=x&path_prefix=/mon-article''"
    by (simp add: spec_canonical_def)
  have v: "verifyShopifySignature asciiLetterCollation (Some ''K'')
     [(''path_prefix'', ''/mon-article''), (''Shop'', ''x''),
      (''signature'', ''75bd739bd4931cd75db56a9e990b61e8c632353a24f4ea3e9be8646e9f760b89'')] =
     Inr True"
    by (simp add: verify_eq_canonical spec_canonical_def asciiLetterCollation_def toLowerCase_def
        hmacHex_K_signed)
  from c v show ?thesis
    by (simp add: hmacHex_K_byte_order)
qed

text \<open>
  Claim C4. For every set of query parameters that contains no \<^verbatim>\<open>signature\<close> field and
  every secret, also an unset one, \<open>verifyShopifySignature\<close> returns false and does not
  throw, and the call leaves the whole state of the runtime as it was. It has no side
  effect on any query: the caller's object keeps its pairs (the \<^verbatim>\<open>signature\<close> pair is
  deleted from a copy), every object that existed before the call is unchanged, nothing
  is printed, and the only change is the object allocated for the copy, which the function
  does not hand out. It is a function of its inputs: the call returns what the function
  \<open>verifyShopifySignature\<close> of the pairs of the query, the secret and the collation (the
  two values the code reads from its environment, neither of which it writes) returns.
\<close>

theorem verifyShopifySignature_absent:
  "(''signature'' \<notin> fst ` set (objects rt ! query) \<longrightarrow>
      verifyShopifySignature_call query rt = (Inr False, rt)) \<and>
   (''signature'' \<notin> fst ` set params \<longrightarrow> verifyShopifySignature coll secret params = Inr False) \<and>
   fst (verifyShopifySignature_call query rt) =
     verifyShopifySignature (collation rt) (secretKey rt) (objects rt ! query) \<and>
   (\<exists>fresh. snd (verifyShopifySignature_call query rt) = rt\<lparr>objects := objects rt @ fresh\<rparr>)"
proof (intro conjI impI)
  assume "''signature'' \<notin> fst ` set (objects rt ! query)"
  then show "verifyShopifySignature_call query rt = (Inr False, rt)"
    by (simp add: verifyShopifySignature_call_def URLSearchParams_get_None [symmetric])
next
  assume "''signature'' \<notin> fst ` set params"
  then show "verifyShopifySignature coll secret params = Inr False"
    by (simp add: verifyShopifySignature_def URLSearchParams_get_None [symmetric])
next
  show "fst (verifyShopifySignature_call query rt) =
     verifyShopifySignature (collation rt) (secretKey rt) (objects rt ! query)"
    by (rule verifyShopifySignature_call_result)
next
  show "\<exists>fresh. snd (verifyShopifySignature_call query rt) = rt\<lparr>objects := objects rt @ fresh\<rparr>"
    by (rule verifyShopifySignature_call_state)
qed

theorem verifyShopifySignature_absent_witness:
  "''signature'' \<notin> fst ` set (objects demoRuntime ! 1) \<and>
   verifyShopifySignature_call 1 demoRuntime = (Inr False, demoRuntime) \<and>
   verifyShopifySignature_call 1 (demoRuntime\<lparr>secretKey := None\<rparr>) =
     (Inr False, demoRuntime\<lparr>secretKey := None\<rparr>) \<and>
   verifyShopifySignature asciiLetterCollation None (objects demoRuntime ! 1) = Inr False \<and>
   fst (verifyShopifySignature_call 0 demoRuntime) = Inr True \<and>
   objects (snd (verifyShopifySignature_call 0 demoRuntime)) ! 0 = signedQuery \<and>
   objects (snd (verifyShopifySignature_call 0 demoRuntime)) ! 1 = objects demoRuntime ! 1 \<and>
   console (snd (verifyShopifySignature_call 0 demoRuntime)) = [] \<and>
   secretKey (snd (verifyShopifySignature_call 0 demoRuntime)) = Some ''K''"
proof -
  have a: "''signature'' \<notin> fst ` set (objects demoRuntime ! 1)"
    "''signature'' \<notin> fst ` set (objects (demoRuntime\<lparr>secretKey := None\<rparr>) ! 1)"
    by (simp_all add: demoRuntime_def)
  have v: "verifyShopifySignature (collation demoRuntime) (secretKey demoRuntime)
      (objects demoRuntime ! 0) = Inr True"
    using signedQuery_verified by (simp add: demoRuntime_def demoEnv_def)
  from verifyShopifySignature_absent [of demoRuntime 0 "[]" asciiLetterCollation None]
  obtain fresh where
    "snd (verifyShopifySignature_call 0 demoRuntime) = demoRuntime\<lparr>objects := objects demoRuntime @ fresh\<rparr>"
    by blast
  with a v
    verifyShopifySignature_absent [of demoRuntime 1 "objects demoRuntime ! 1" asciiLetterCollation None]
    verifyShopifySignature_absent [of "demoRuntime\<lparr>secretKey := None\<rparr>" 1 "[]" asciiLetterCollation None]
    verifyShopifySignature_absent [of demoRuntime 0 "[]" asciiLetterCollation None]
  show ?thesis
    by (simp add: demoRuntime_def)
qed

text \<open>
  Claim C5, for parameters that the sort can tell apart. For every two query-parameter
  sequences that are reorderings of each other (the same multiset of key/value pairs,
  including the \<^verbatim>\<open>signature\<close> pair) and in which no two parameters have keys that
  \<^verbatim>\<open>localeCompare\<close> reports as equal (in particular, no key occurs twice), and for every
  secret, \<open>verifyShopifySignature\<close> returns the same result on both.
\<close>

theorem verifyShopifySignature_reorder:
  assumes "mset q1 = mset q2" and "distinct (map (coll \<circ> fst) q1)"
  shows "verifyShopifySignature coll secret q1 = verifyShopifySignature coll secret q2"
  using assms by (rule verify_reorder_aux)

theorem verifyShopifySignature_reorder_witness:
  "mset [(''shop'', ''s''), (''Path'', ''p''), (''signature'', ''00'')] =
     mset [(''signature'', ''00''), (''Path'', ''p''), (''shop'', ''s'')] \<and>
   distinct (map (asciiLetterCollation \<circ> fst)
     [(''shop'', ''s''), (''Path'', ''p''), (''signature'', ''00'')]) \<and>
   verifyShopifySignature asciiLetterCollation (Some ''K'')
     [(''shop'', ''s''), (''Path'', ''p''), (''signature'', ''00'')] =
   verifyShopifySignature asciiLetterCollation (Some ''K'')
     [(''signature'', ''00''), (''Path'', ''p''), (''shop'', ''s'')]"
proof -
  have m: "mset [(''shop'', ''s''), (''Path'', ''p''), (''signature'', ''00'')] =
     mset [(''signature'', ''00''), (''Path'', ''p''), (''shop'', ''s'')]"
    by (simp add: add_mset_commute)
  have d: "distinct (map (asciiLetterCollation \<circ> fst)
     [(''shop'', ''s''), (''Path'', ''p''), (''signature'', ''00'')])"
    by (simp add: asciiLetterCollation_def toLowerCase_def)
  from m d verifyShopifySignature_reorder [OF m d, of "Some ''K''"] show ?thesis
    by blast
qed

text \<open>
  Claim C5 as stated fails when a key occurs twice: the sort is stable, so the two values
  of \<^verbatim>\<open>a\<close> stay in the order of the request. The signature is the digest of
  \<^verbatim>\<open>a=1&a=2\<close>; the request with the two pairs swapped is hashed as \<^verbatim>\<open>a=2&a=1\<close> and
  rejected.
\<close>

theorem verifyShopifySignature_reorder_counterexample:
  "mset [(''a'', ''1''), (''a'', ''2''),
      (''signature'', ''283f5dbb3028f61450b47a2337aed245f035c971e35ade76d73b9a73b7e218ae'')] =
   mset [(''a'', ''2''), (''a'', ''1''),
      (''signature'', ''283f5dbb3028f61450b47a2337aed245f035c971e35ade76d73b9a73b7e218ae'')] \<and>
   verifyShopifySignature asciiLetterCollation (Some ''K'')
     [(''a'', ''1''), (''a'', ''2''),
      (''signature'', ''283f5dbb3028f61450b47a2337aed245f035c971e35ade76d73b9a73b7e218ae'')] =
     Inr True \<and>
   verifyShopifySignature asciiLetterCollation (Some ''K'')
     [(''a'', ''2''), (''a'', ''1''),
      (''signature'', ''283f5dbb3028f61450b47a2337aed245f035c971e35ade76d73b9a73b7e218ae'')] =
     Inr False"
  by (simp add: verify_eq_canonical spec_canonical_def asciiLetterCollation_def toLowerCase_def
      hmacHex_K_a1a2 hmacHex_K_a2a1 add_mset_commute)

section \<open>Escaping of the text fields\<close>

text \<open>
  Claim C2. Every user-supplied text field that the block renderer and the page assembler
  emit (post title, block titles, FAQ questions and answers, CTA description and button
  label, author names, and the alternative text of the image) goes through the escaping
  step, which replaces \<^verbatim>\<open>&\<close> by \<^verbatim>\<open>&amp;\<close>, \<^verbatim>\<open><\<close> by \<^verbatim>\<open>&lt;\<close>, \<^verbatim>\<open>>\<close> by \<^verbatim>\<open>&gt;\<close> and the
  double quote by \<^verbatim>\<open>&quot;\<close>, before it is concatenated: each rendered piece is its fixed
  markup with the escaped fields in their places (\<open>escapedText\<close> is the escaping by the
  table, the empty string for an absent field). So escaped text has no raw angle bracket,
  and the raw angle brackets of the rendered body, of the documents of both routes and of
  the author list are those of the same record with its text fields removed: the fields
  contribute none.
\<close>

theorem text_fields_escaped:
  "escapeHTML (Some s) = concat (map escapeChar s) \<and>
   escapeHTML_root (Some s) = Inr (concat (map escapeChar s)) \<and>
   escapeHTML v = escapedText v \<and>
   renderFaqItem item =
     ''\<newline>            <div class=\"faq-item\">\<newline>              <strong>'' @
     escapedText (question item) @
     ''</strong>\<newline>              <p>'' @
     escapedText (answer item) @
     ''</p>\<newline>            </div>\<newline>          '' \<and>
   (block_type block = ''ctaBlock'' \<longrightarrow>
      renderBlock toHTML' block =
        Inr (''<section>\<newline>          <h2>'' @ escapedText (BodyBlock.title block) @
             ''</h2>\<newline>          <p>'' @ escapedText (description block) @
             ''</p>\<newline>          <p><strong>'' @ escapedText (btnText block) @
             ''</strong></p>\<newline>        </section>'')) \<and>
   (block_type block = ''faqBlock'' \<and> items block = Some its \<longrightarrow>
      renderBlock toHTML' block =
        Inr (''<section>\<newline>          <h2>'' @ escapedText (BodyBlock.title block) @
             ''</h2>\<newline>          '' @ concat (map renderFaqItem its) @
             ''\<newline>        </section>'')) \<and>
   (block_type block = ''wysiwygBlock'' \<or> block_type block = ''quickAnswerBlock'' \<longrightarrow>
      renderBlock toHTML' block =
        map_sum id
          (\<lambda>html. ''<section>\<newline>          <h2>'' @ escapedText (BodyBlock.title block) @
             ''</h2>\<newline>          '' @ html @ ''\<newline>        </section>'')
          (toHTML' (content block))) \<and>
   renderBody toHTML' (Some blocks) = map_sum id concat (Array_map (renderBlock toHTML') blocks) \<and>
   authorNames as =
     (case as of
        None \<Rightarrow> []
      | Some authors' \<Rightarrow> join '', '' (map (\<lambda>a. escapedText (fullName a)) authors')) \<and>
   mainPhoto post =
     (case mainPhotoUrl post of
        None \<Rightarrow> []
      | Some url \<Rightarrow>
          if url = [] then []
          else ''<img src=\"'' @ url @ ''\" alt=\"'' @
               escapedText (if truthy (mainPhotoAlt post) then mainPhotoAlt post else Blog.title post) @
               ''\">'') \<and>
   renderBlog toHTML' fmt post =
     map_sum id
       (\<lambda>bodyHTML.
          docHead @ escapedText (Blog.title post) @ blogStyle @ escapedText (Blog.title post) @
          metaOpen @ metaDate (publishedDate fmt (Blog.publishedAt post)) @ metaSep @
          (if authorNames (authors post) = [] then []
           else '' '' @ [CHR 0xC2, CHR 0xB7] @ '' Par '' @ authorNames (authors post)) @
          metaClose @ mainPhoto post @ contentOpen @ bodyHTML @ docTail)
       (renderBody toHTML' (Blog.body post)) \<and>
   authorListDocument authors' =
     authorListHead @
     concat (map
       (\<lambda>author.
          ''\<newline>    <div class=\"author-card\">\<newline>      '' @
          (case photoUrl author of
             None \<Rightarrow> []
           | Some url \<Rightarrow>
               if url = [] then []
               else ''<img src=\"'' @ url @ ''\" alt=\"'' @
                    escapedText (fullName author) @ ''\">'') @
          ''\<newline>      <h2>'' @ escapedText (fullName author) @
          ''</h2>\<newline>    </div>\<newline>  '')
       authors') @
     authorListTail \<and>
   (Post.title post' = Some t \<longrightarrow>
      renderPost_root toHTML' fmt post' =
        map_sum id
          (\<lambda>bodyHTML.
             docHead @ escapedText (Some t) @ postStyle @ escapedText (Some t) @
             metaOpen @ metaDate (publishedDate fmt (Post.publishedAt post')) @ metaSep @
             (if truthy (authorName post')
              then '' '' @ [CHR 0xC2, CHR 0xB7] @ '' Par '' @ escapedText (authorName post')
              else []) @
             metaClose @
             (case mainImageUrl post' of
                None \<Rightarrow> []
              | Some url \<Rightarrow>
                  if url = [] then []
                  else ''<img src=\"'' @ url @ ''\" alt=\"'' @ escapedText (Some t) @ ''\">'') @
             contentOpen @ bodyHTML @ docTail)
          (case Post.body post' of None \<Rightarrow> Inr [] | Some b \<Rightarrow> toHTML' b)) \<and>
   angles (escapedText v) = [] \<and>
   map_sum id angles (renderBody toHTML' body') =
     map_sum id angles (renderBody toHTML' (map_option (map blankBlock) body')) \<and>
   map_sum id angles (renderBlog toHTML' fmt post) =
     map_sum id angles (renderBlog toHTML' fmt (blankBlog post)) \<and>
   angles (authorListDocument authors') = angles (authorListDocument (map blankAuthor authors')) \<and>
   map_sum id angles (renderPost_root toHTML' fmt post') =
     map_sum id angles (renderPost_root toHTML' fmt (blankPost post')) \<and>
   angles (concat (map escapeChar s)) = []"
proof (intro conjI impI; (elim conjE)?)
  show "escapeHTML (Some s) = concat (map escapeChar s)"
    by (rule escapeHTML_Some)
  show "angles (concat (map escapeChar s)) = []"
    by (rule angles_escaped)
  show "escapeHTML_root (Some s) = Inr (concat (map escapeChar s))"
    by (rule escapeHTML_root_Some)
  show "escapeHTML v = escapedText v"
    by (rule escapeHTML_escapedText)
  show "renderFaqItem item =
     ''\<newline>            <div class=\"faq-item\">\<newline>              <strong>'' @
     escapedText (question item) @
     ''</strong>\<newline>              <p>'' @
     escapedText (answer item) @
     ''</p>\<newline>            </div>\<newline>          ''"
    by (rule renderFaqItem_text)
  show "renderBody toHTML' (Some blocks) = map_sum id concat (Array_map (renderBlock toHTML') blocks)"
    by (rule renderBody_parts)
  show "authorNames as =
     (case as of
        None \<Rightarrow> []
      | Some authors' \<Rightarrow> join '', '' (map (\<lambda>a. escapedText (fullName a)) authors'))"
    by (rule authorNames_text)
  show "mainPhoto post =
     (case mainPhotoUrl post of
        None \<Rightarrow> []
      | Some url \<Rightarrow>
          if url = [] then []
          else ''<img src=\"'' @ url @ ''\" alt=\"'' @
               escapedText (if truthy (mainPhotoAlt post) then mainPhotoAlt post else Blog.title post) @
               ''\">'')"
    by (rule mainPhoto_text)
  show "renderBlog toHTML' fmt post =
     map_sum id
       (\<lambda>bodyHTML.
          docHead @ escapedText (Blog.title post) @ blogStyle @ escapedText (Blog.title post) @
          metaOpen @ metaDate (publishedDate fmt (Blog.publishedAt post)) @ metaSep @
          (if authorNames (authors post) = [] then []
           else '' '' @ [CHR 0xC2, CHR 0xB7] @ '' Par '' @ authorNames (authors post)) @
          metaClose @ mainPhoto post @ contentOpen @ bodyHTML @ docTail)
       (renderBody toHTML' (Blog.body post))"
    by (rule renderBlog_text)
  show "authorListDocument authors' =
     authorListHead @
     concat (map
       (\<lambda>author.
          ''\<newline>    <div class=\"author-card\">\<newline>      '' @
          (case photoUrl author of
             None \<Rightarrow> []
           | Some url \<Rightarrow>
               if url = [] then []
               else ''<img src=\"'' @ url @ ''\" alt=\"'' @
                    escapedText (fullName author) @ ''\">'') @
          ''\<newline>      <h2>'' @ escapedText (fullName author) @
          ''</h2>\<newline>    </div>\<newline>  '')
       authors') @
     authorListTail"
    unfolding authorCard_text [symmetric] by (rule authorListDocument_text)
  show "angles (escapedText v) = []"
    by (rule angles_escapedText)
  show "map_sum id angles (renderBody toHTML' body') =
     map_sum id angles (renderBody toHTML' (map_option (map blankBlock) body'))"
    by (rule angles_renderBody [symmetric])
  show "map_sum id angles (renderBlog toHTML' fmt post) =
     map_sum id angles (renderBlog toHTML' fmt (blankBlog post))"
    by (rule angles_renderBlog [symmetric])
  show "angles (authorListDocument authors') = angles (authorListDocument (map blankAuthor authors'))"
    by (rule angles_authorListDocument [symmetric])
  show "map_sum id angles (renderPost_root toHTML' fmt post') =
     map_sum id angles (renderPost_root toHTML' fmt (blankPost post'))"
    by (rule angles_renderPost_root [symmetric])
next
  assume "block_type block = ''ctaBlock''"
  then show "renderBlock toHTML' block =
        Inr (''<section>\<newline>          <h2>'' @ escapedText (BodyBlock.title block) @
             ''</h2>\<newline>          <p>'' @ escapedText (description block) @
             ''</p>\<newline>          <p><strong>'' @ escapedText (btnText block) @
             ''</strong></p>\<newline>        </section>'')"
    by (rule renderBlock_cta)
next
  assume "block_type block = ''faqBlock''" "items block = Some its"
  then show "renderBlock toHTML' block =
        Inr (''<section>\<newline>          <h2>'' @ escapedText (BodyBlock.title block) @
             ''</h2>\<newline>          '' @ concat (map renderFaqItem its) @
             ''\<newline>        </section>'')"
    by (rule renderBlock_faq)
next
  assume "block_type block = ''wysiwygBlock'' \<or> block_type block = ''quickAnswerBlock''"
  then show "renderBlock toHTML' block =
        map_sum id
          (\<lambda>html. ''<section>\<newline>          <h2>'' @ escapedText (BodyBlock.title block) @
             ''</h2>\<newline>          '' @ html @ ''\<newline>        </section>'')
          (toHTML' (content block))"
    by (rule renderBlock_rich)
next
  assume "Post.title post' = Some t"
  then show "renderPost_root toHTML' fmt post' =
        map_sum id
          (\<lambda>bodyHTML.
             docHead @ escapedText (Some t) @ postStyle @ escapedText (Some t) @
             metaOpen @ metaDate (publishedDate fmt (Post.publishedAt post')) @ metaSep @
             (if truthy (authorName post')
              then '' '' @ [CHR 0xC2, CHR 0xB7] @ '' Par '' @ escapedText (authorName post')
              else []) @
             metaClose @
             (case mainImageUrl post' of
                None \<Rightarrow> []
              | Some url \<Rightarrow>
                  if url = [] then []
                  else ''<img src=\"'' @ url @ ''\" alt=\"'' @ escapedText (Some t) @ ''\">'') @
             contentOpen @ bodyHTML @ docTail)
          (case Post.body post' of None \<Rightarrow> Inr [] | Some b \<Rightarrow> toHTML' b)"
    by (rule renderPost_root_text)
qed

theorem text_fields_escaped_witness:
  "block_type ctaDemo = ''ctaBlock'' \<and>
   renderBlock (\<lambda>c. Inr c) ctaDemo =
     Inr ''<section>\<newline>          <h2>Offre &quot;A &amp; B&quot;</h2>\<newline>          <p>&lt;b&gt;gratuit&lt;/b&gt;</p>\<newline>          <p><strong>Voir &gt; ici</strong></p>\<newline>        </section>'' \<and>
   block_type faqDemo = ''faqBlock'' \<and>
   items faqDemo =
     Some [\<lparr>question = Some ''1 < 2 ?'', answer = Some ''Oui, \"1 < 2\"''\<rparr>,
           \<lparr>question = None, answer = Some ''R&D''\<rparr>] \<and>
   renderBlock (\<lambda>c. Inr c) faqDemo =
     Inr (''<section>\<newline>          <h2>Q &amp; R</h2>\<newline>          '' @
          ''\<newline>            <div class=\"faq-item\">\<newline>              <strong>1 &lt; 2 ?</strong>\<newline>              <p>Oui, &quot;1 &lt; 2&quot;</p>\<newline>            </div>\<newline>          '' @
          ''\<newline>            <div class=\"faq-item\">\<newline>              <strong></strong>\<newline>              <p>R&amp;D</p>\<newline>            </div>\<newline>          '' @
          ''\<newline>        </section>'') \<and>
   (block_type richDemo = ''wysiwygBlock'' \<or> block_type richDemo = ''quickAnswerBlock'') \<and>
   renderBlock (\<lambda>c. Inr c) richDemo =
     Inr ''<section>\<newline>          <h2>&lt;En bref&gt;</h2>\<newline>          <p>texte</p>\<newline>        </section>'' \<and>
   renderBlog (\<lambda>c. Inr c) (\<lambda>d. d) quotedBlog =
     Inr (docHead @ ''Tom &amp; &quot;Jerry&quot;'' @ blogStyle @ ''Tom &amp; &quot;Jerry&quot;'' @
          metaOpen @ metaSep @ '' '' @ [CHR 0xC2, CHR 0xB7] @ '' Par Ada &lt;Dev&gt;, R&amp;D'' @
          metaClose @
          ''<img src=\"https://cdn.example/p.png\" alt=\"Photo &quot;&lt;1&gt;&quot;\">'' @
          contentOpen @
          ''<section>\<newline>          <h2>Offre &quot;A &amp; B&quot;</h2>\<newline>          <p>&lt;b&gt;gratuit&lt;/b&gt;</p>\<newline>          <p><strong>Voir &gt; ici</strong></p>\<newline>        </section>'' @
          ''<section>\<newline>          <h2>Q &amp; R</h2>\<newline>          '' @
          ''\<newline>            <div class=\"faq-item\">\<newline>              <strong>1 &lt; 2 ?</strong>\<newline>              <p>Oui, &quot;1 &lt; 2&quot;</p>\<newline>            </div>\<newline>          '' @
          ''\<newline>            <div class=\"faq-item\">\<newline>              <strong></strong>\<newline>              <p>R&amp;D</p>\<newline>            </div>\<newline>          '' @
          ''\<newline>        </section>'' @
          ''<section>\<newline>          <h2>&lt;En bref&gt;</h2>\<newline>          <p>texte</p>\<newline>        </section>'' @
          docTail) \<and>
   Post.title quotedPost = Some ''Tom & \"Jerry\"'' \<and>
   renderPost_root (\<lambda>c. Inr c) (\<lambda>d. d) quotedPost =
     Inr (docHead @ ''Tom &amp; &quot;Jerry&quot;'' @ postStyle @ ''Tom &amp; &quot;Jerry&quot;'' @
          metaOpen @ metaSep @ '' '' @ [CHR 0xC2, CHR 0xB7] @ '' Par Ada &lt;Dev&gt;'' @
          metaClose @
          ''<img src=\"https://cdn.example/p.png\" alt=\"Tom &amp; &quot;Jerry&quot;\">'' @
          contentOpen @ ''<p>texte</p>'' @ docTail)"
proof -
  have e: "escapedText None = []"
    "escapedText (Some ''Offre \"A & B\"'') = ''Offre &quot;A &amp; B&quot;''"
    "escapedText (Some ''<b>gratuit</b>'') = ''&lt;b&gt;gratuit&lt;/b&gt;''"
    "escapedText (Some ''Voir > ici'') = ''Voir &gt; ici''"
    "escapedText (Some ''Q & R'') = ''Q &amp; R''"
    "escapedText (Some ''1 < 2 ?'') = ''1 &lt; 2 ?''"
    "escapedText (Some ''Oui, \"1 < 2\"'') = ''Oui, &quot;1 &lt; 2&quot;''"
    "escapedText (Some ''R&D'') = ''R&amp;D''"
    "escapedText (Some ''<En bref>'') = ''&lt;En bref&gt;''"
    "escapedText (Some ''Tom & \"Jerry\"'') = ''Tom &amp; &quot;Jerry&quot;''"
    "escapedText (Some ''Photo \"<1>\"'') = ''Photo &quot;&lt;1&gt;&quot;''"
    "escapedText (Some ''Ada <Dev>'') = ''Ada &lt;Dev&gt;''"
    by (simp_all add: escapedText_def escapeChar_def)
  note C = text_fields_escaped
      [where s = "[]"
        and v = None
        and item = "\<lparr>question = None, answer = None\<rparr>"
        and block = ctaDemo
        and its = "[]"
        and blocks = "[]"
        and post = quotedBlog
        and fmt = "\<lambda>d. d"
        and post' = quotedPost
        and t = "[]"
        and body' = None
        and as = None
        and toHTML' = "\<lambda>c. Inr c"
        and authors' = "[]"]
  note F = text_fields_escaped
      [where s = "[]"
        and v = None
        and item = "\<lparr>question = None, answer = None\<rparr>"
        and block = faqDemo
        and its = "[\<lparr>question = Some ''1 < 2 ?'', answer = Some ''Oui, \"1 < 2\"''\<rparr>,
                \<lparr>question = None, answer = Some ''R&D''\<rparr>]"
        and blocks = "[]"
        and post = quotedBlog
        and fmt = "\<lambda>d. d"
        and post' = quotedPost
        and t = "[]"
        and body' = None
        and as = None
        and toHTML' = "\<lambda>c. Inr c"
        and authors' = "[]"]
  note F1 = text_fields_escaped
      [where s = "[]"
        and v = None
        and item = "\<lparr>question = Some ''1 < 2 ?'', answer = Some ''Oui, \"1 < 2\"''\<rparr>"
        and block = ctaDemo
        and its = "[]"
        and blocks = "[]"
        and post = quotedBlog
        and fmt = "\<lambda>d. d"
        and post' = quotedPost
        and t = "[]"
        and body' = None
        and as = None
        and toHTML' = "\<lambda>c. Inr c"
        and authors' = "[]"]
  note F2 = text_fields_escaped
      [where s = "[]"
        and v = None
        and item = "\<lparr>question = None, answer = Some ''R&D''\<rparr>"
        and block = ctaDemo
        and its = "[]"
        and blocks = "[]"
        and post = quotedBlog
        and fmt = "\<lambda>d. d"
        and post' = quotedPost
        and t = "[]"
        and body' = None
        and as = None
        and toHTML' = "\<lambda>c. Inr c"
        and authors' = "[]"]
  note R = text_fields_escaped
      [where s = "[]"
        and v = None
        and item = "\<lparr>question = None, answer = None\<rparr>"
        and block = richDemo
        and its = "[]"
        and blocks = "[]"
        and post = quotedBlog
        and fmt = "\<lambda>d. d"
        and post' = quotedPost
        and t = "[]"
        and body' = None
        and as = None
        and toHTML' = "\<lambda>c. Inr c"
        and authors' = "[]"]
  note Y = text_fields_escaped
      [where s = "[]"
        and v = None
        and item = "\<lparr>question = None, answer = None\<rparr>"
        and block = ctaDemo
        and its = "[]"
        and blocks = "[ctaDemo, faqDemo, richDemo]"
        and post = quotedBlog
        and fmt = "\<lambda>d. d"
        and post' = quotedPost
        and t = "[]"
        and body' = None
        and as = None
        and toHTML' = "\<lambda>c. Inr c"
        and authors' = "[]"]
  note B = text_fields_escaped
      [where s = "[]"
        and v = None
        and item = "\<lparr>question = None, answer = None\<rparr>"
        and block = ctaDemo
        and its = "[]"
        and blocks = "[]"
        and post = quotedBlog
        and fmt = "\<lambda>d. d"
        and post' = quotedPost
        and t = "[]"
        and body' = None
        and as = "authors quotedBlog"
        and toHTML' = "\<lambda>c. Inr c"
        and authors' = "[]"]
  note P = text_fields_escaped
      [where s = "[]"
        and v = None
        and item = "\<lparr>question = None, answer = None\<rparr>"
        and block = ctaDemo
        and its = "[]"
        and blocks = "[]"
        and post = quotedBlog
        and fmt = "\<lambda>d. d"
        and post' = quotedPost
        and t = "''Tom & \"Jerry\"''"
        and body' = None
        and as = None
        and toHTML' = "\<lambda>c. Inr c"
        and authors' = "[]"]
  have cta: "renderBlock (\<lambda>c. Inr c) ctaDemo =
     Inr ''<section>\<newline>          <h2>Offre &quot;A &amp; B&quot;</h2>\<newline>          <p>&lt;b&gt;gratuit&lt;/b&gt;</p>\<newline>          <p><strong>Voir &gt; ici</strong></p>\<newline>        </section>''"
    using C [THEN conjunct2, THEN conjunct2, THEN conjunct2, THEN conjunct2, THEN conjunct1]
    by (simp add: ctaDemo_def e)
  have item1: "renderFaqItem \<lparr>question = Some ''1 < 2 ?'', answer = Some ''Oui, \"1 < 2\"''\<rparr> =
      ''\<newline>            <div class=\"faq-item\">\<newline>              <strong>1 &lt; 2 ?</strong>\<newline>              <p>Oui, &quot;1 &lt; 2&quot;</p>\<newline>            </div>\<newline>          ''"
    using F1 [THEN conjunct2, THEN conjunct2, THEN conjunct2, THEN conjunct1]
    by (simp add: e)
  have item2: "renderFaqItem \<lparr>question = None, answer = Some ''R&D''\<rparr> =
      ''\<newline>            <div class=\"faq-item\">\<newline>              <strong></strong>\<newline>              <p>R&amp;D</p>\<newline>            </div>\<newline>          ''"
    using F2 [THEN conjunct2, THEN conjunct2, THEN conjunct2, THEN conjunct1]
    by (simp add: e)
  have faq: "renderBlock (\<lambda>c. Inr c) faqDemo =
     Inr (''<section>\<newline>          <h2>Q &amp; R</h2>\<newline>          '' @
          ''\<newline>            <div class=\"faq-item\">\<newline>              <strong>1 &lt; 2 ?</strong>\<newline>              <p>Oui, &quot;1 &lt; 2&quot;</p>\<newline>            </div>\<newline>          '' @
          ''\<newline>            <div class=\"faq-item\">\<newline>              <strong></strong>\<newline>              <p>R&amp;D</p>\<newline>            </div>\<newline>          '' @
          ''\<newline>        </section>'')"
    using F [THEN conjunct2, THEN conjunct2, THEN conjunct2, THEN conjunct2, THEN conjunct2, THEN conjunct1]
    by (simp add: item1 item2) (simp add: faqDemo_def e)
  have rich: "renderBlock (\<lambda>c. Inr c) richDemo =
     Inr ''<section>\<newline>          <h2>&lt;En bref&gt;</h2>\<newline>          <p>texte</p>\<newline>        </section>''"
    using R [THEN conjunct2, THEN conjunct2, THEN conjunct2, THEN conjunct2, THEN conjunct2, THEN conjunct2, THEN conjunct1]
    by (simp add: richDemo_def e)
  have body: "renderBody (\<lambda>c. Inr c) (Blog.body quotedBlog) =
     Inr (''<section>\<newline>          <h2>Offre &quot;A &amp; B&quot;</h2>\<newline>          <p>&lt;b&gt;gratuit&lt;/b&gt;</p>\<newline>          <p><strong>Voir &gt; ici</strong></p>\<newline>        </section>'' @
          ''<section>\<newline>          <h2>Q &amp; R</h2>\<newline>          '' @
          ''\<newline>            <div class=\"faq-item\">\<newline>              <strong>1 &lt; 2 ?</strong>\<newline>              <p>Oui, &quot;1 &lt; 2&quot;</p>\<newline>            </div>\<newline>          '' @
          ''\<newline>            <div class=\"faq-item\">\<newline>              <strong></strong>\<newline>              <p>R&amp;D</p>\<newline>            </div>\<newline>          '' @
          ''\<newline>        </section>'' @
          ''<section>\<newline>          <h2>&lt;En bref&gt;</h2>\<newline>          <p>texte</p>\<newline>        </section>'')"
    using Y [THEN conjunct2, THEN conjunct2, THEN conjunct2, THEN conjunct2, THEN conjunct2, THEN conjunct2, THEN conjunct2, THEN conjunct1]
    by (simp add: quotedBlog_def cta faq rich)
  have names: "authorNames (authors quotedBlog) = ''Ada &lt;Dev&gt;, R&amp;D''"
    using B [THEN conjunct2, THEN conjunct2, THEN conjunct2, THEN conjunct2, THEN conjunct2, THEN conjunct2, THEN conjunct2, THEN conjunct2, THEN conjunct1]
    by (simp add: quotedBlog_def e)
  have photo: "mainPhoto quotedBlog =
      ''<img src=\"https://cdn.example/p.png\" alt=\"Photo &quot;&lt;1&gt;&quot;\">''"
    using B [THEN conjunct2, THEN conjunct2, THEN conjunct2, THEN conjunct2, THEN conjunct2, THEN conjunct2, THEN conjunct2, THEN conjunct2, THEN conjunct2, THEN conjunct1]
    by (simp add: quotedBlog_def e truthy_def)
  have blog: "renderBlog (\<lambda>c. Inr c) (\<lambda>d. d) quotedBlog =
     Inr (docHead @ ''Tom &amp; &quot;Jerry&quot;'' @ blogStyle @ ''Tom &amp; &quot;Jerry&quot;'' @
          metaOpen @ metaSep @ '' '' @ [CHR 0xC2, CHR 0xB7] @ '' Par Ada &lt;Dev&gt;, R&amp;D'' @
          metaClose @
          ''<img src=\"https://cdn.example/p.png\" alt=\"Photo &quot;&lt;1&gt;&quot;\">'' @
          contentOpen @
          ''<section>\<newline>          <h2>Offre &quot;A &amp; B&quot;</h2>\<newline>          <p>&lt;b&gt;gratuit&lt;/b&gt;</p>\<newline>          <p><strong>Voir &gt; ici</strong></p>\<newline>        </section>'' @
          ''<section>\<newline>          <h2>Q &amp; R</h2>\<newline>          '' @
          ''\<newline>            <div class=\"faq-item\">\<newline>              <strong>1 &lt; 2 ?</strong>\<newline>              <p>Oui, &quot;1 &lt; 2&quot;</p>\<newline>            </div>\<newline>          '' @
          ''\<newline>            <div class=\"faq-item\">\<newline>              <strong></strong>\<newline>              <p>R&amp;D</p>\<newline>            </div>\<newline>          '' @
          ''\<newline>        </section>'' @
          ''<section>\<newline>          <h2>&lt;En bref&gt;</h2>\<newline>          <p>texte</p>\<newline>        </section>'' @
          docTail)"
    using B [THEN conjunct2, THEN conjunct2, THEN conjunct2, THEN conjunct2, THEN conjunct2, THEN conjunct2, THEN conjunct2, THEN conjunct2, THEN conjunct2, THEN conjunct2, THEN conjunct1]
    unfolding body names photo
    by (simp add: quotedBlog_def e metaDate_def publishedDate_def)
  have post: "renderPost_root (\<lambda>c. Inr c) (\<lambda>d. d) quotedPost =
     Inr (docHead @ ''Tom &amp; &quot;Jerry&quot;'' @ postStyle @ ''Tom &amp; &quot;Jerry&quot;'' @
          metaOpen @ metaSep @ '' '' @ [CHR 0xC2, CHR 0xB7] @ '' Par Ada &lt;Dev&gt;'' @
          metaClose @
          ''<img src=\"https://cdn.example/p.png\" alt=\"Tom &amp; &quot;Jerry&quot;\">'' @
          contentOpen @ ''<p>texte</p>'' @ docTail)"
    using P [THEN conjunct2, THEN conjunct2, THEN conjunct2, THEN conjunct2, THEN conjunct2, THEN conjunct2, THEN conjunct2, THEN conjunct2, THEN conjunct2, THEN conjunct2, THEN conjunct2, THEN conjunct2, THEN conjunct1]
    by (simp add: quotedPost_def e truthy_def metaDate_def publishedDate_def)
  from cta faq rich blog post show ?thesis
    by (simp add: ctaDemo_def faqDemo_def richDemo_def quotedPost_def)
qed

section \<open>Unknown block kinds\<close>

text \<open>
  Claim C6. In every body-block sequence, a block whose kind tag is none of
  \<^verbatim>\<open>wysiwygBlock\<close>, \<^verbatim>\<open>faqBlock\<close>, \<^verbatim>\<open>ctaBlock\<close> and \<^verbatim>\<open>quickAnswerBlock\<close> contributes the
  empty string and raises no error, and \<open>renderBody\<close> gives what it gives for the
  sequence without that block: the same string, or the same exception of another block.
\<close>

theorem renderBody_unknown_block:
  assumes "block_type block \<notin> {''wysiwygBlock'', ''faqBlock'', ''ctaBlock'', ''quickAnswerBlock''}"
  shows "renderBlock toHTML' block = Inr [] \<and>
         renderBody toHTML' (Some (before @ block # after)) = renderBody toHTML' (Some (before @ after))"
  using assms
  by (simp add: renderBlock_unknown renderBody_def Array_map_append join_Nil split: sum.splits)

theorem renderBody_unknown_block_witness:
  "block_type (\<lparr>block_type = ''videoBlock'', BodyBlock.title = Some ''Film'', content = [],
       items = None, description = None, btnText = None\<rparr> :: string BodyBlock)
     \<notin> {''wysiwygBlock'', ''faqBlock'', ''ctaBlock'', ''quickAnswerBlock''} \<and>
   renderBlock (\<lambda>c. Inr c)
     \<lparr>block_type = ''videoBlock'', BodyBlock.title = Some ''Film'', content = [],
       items = None, description = None, btnText = None\<rparr> = Inr [] \<and>
   renderBody (\<lambda>c. Inr c)
     (Some
       [\<lparr>block_type = ''ctaBlock'', BodyBlock.title = Some ''A & B'', content = [],
          items = None, description = Some ''<b>gratuit</b>'', btnText = None\<rparr>,
        \<lparr>block_type = ''videoBlock'', BodyBlock.title = Some ''Film'', content = [],
          items = None, description = None, btnText = None\<rparr>,
        \<lparr>block_type = ''wysiwygBlock'', BodyBlock.title = None, content = ''<p>texte</p>'',
          items = None, description = None, btnText = None\<rparr>]) =
   renderBody (\<lambda>c. Inr c)
     (Some
       [\<lparr>block_type = ''ctaBlock'', BodyBlock.title = Some ''A & B'', content = [],
          items = None, description = Some ''<b>gratuit</b>'', btnText = None\<rparr>,
        \<lparr>block_type = ''wysiwygBlock'', BodyBlock.title = None, content = ''<p>texte</p>'',
          items = None, description = None, btnText = None\<rparr>])"
  using renderBody_unknown_block
    [of "\<lparr>block_type = ''videoBlock'', BodyBlock.title = Some ''Film'', content = [],
          items = None, description = None, btnText = None\<rparr>"
      "\<lambda>c. Inr c"
      "[\<lparr>block_type = ''ctaBlock'', BodyBlock.title = Some ''A & B'', content = [],
          items = None, description = Some ''<b>gratuit</b>'', btnText = None\<rparr>]"
      "[\<lparr>block_type = ''wysiwygBlock'', BodyBlock.title = None, content = ''<p>texte</p>'',
          items = None, description = None, btnText = None\<rparr>]"]
  by simp

section \<open>The responses of the handlers\<close>

text \<open>
  Claim C3. For every request that passes signature verification, if the content fetch or
  the rendering throws any exception (the witness runs the record-not-found and the
  empty-author-list cases), the handler returns HTTP 404 with the fixed plain-text body
  \<^verbatim>\<open>Content not found\<close>; the exception goes to \<^verbatim>\<open>console.error\<close> only. Both routes.
\<close>

theorem GET_failure_404:
  assumes "verifyShopifySignature coll (SHOPIFY_CLIENT_SECRET env) searchParams = Inr True"
  shows
    "(GET_html env (slugOf path) = Inl e \<longrightarrow>
        GET coll env searchParams path =
          Inr (\<lparr>body = ''Content not found'', status = 404, headers = []\<rparr>, [e])) \<and>
     (fetchAndRenderPost_root env (slugOfPrefix searchParams) = Inl e \<longrightarrow>
        GET_root coll env searchParams =
          Inr (\<lparr>body = ''Content not found'', status = 404, headers = []\<rparr>, [e]))"
  by (simp add: GET_verified [OF assms] GET_root_verified [OF assms] notFound_def)

theorem GET_failure_404_witness:
  "verifyShopifySignature asciiLetterCollation (SHOPIFY_CLIENT_SECRET emptyEnv) signedQuery = Inr True \<and>
   GET_html emptyEnv (slugOf (Some [''inconnu''])) = Inl (Error ''Post not found: inconnu'') \<and>
   GET asciiLetterCollation emptyEnv signedQuery (Some [''inconnu'']) =
     Inr (\<lparr>body = ''Content not found'', status = 404, headers = []\<rparr>,
          [Error ''Post not found: inconnu'']) \<and>
   GET_html emptyEnv (slugOf (Some [''liste''])) = Inl (Error ''No authors found'') \<and>
   GET asciiLetterCollation emptyEnv signedQuery (Some [''liste'']) =
     Inr (\<lparr>body = ''Content not found'', status = 404, headers = []\<rparr>,
          [Error ''No authors found'']) \<and>
   fetchAndRenderPost_root emptyEnv (slugOfPrefix signedQuery) = Inl (Error ''Post not found: mon-article'') \<and>
   GET_root asciiLetterCollation emptyEnv signedQuery =
     Inr (\<lparr>body = ''Content not found'', status = 404, headers = []\<rparr>,
          [Error ''Post not found: mon-article''])"
proof -
  have a: "GET_html emptyEnv (slugOf (Some [''inconnu''])) = Inl (Error ''Post not found: inconnu'')"
    by (simp add: GET_html_def slugOf_def fetchAndRenderPost_def emptyEnv_def)
  have b: "GET_html emptyEnv (slugOf (Some [''liste''])) = Inl (Error ''No authors found'')"
    by (simp add: GET_html_def slugOf_def fetchAndRenderAuthorList_def emptyEnv_def)
  have c: "fetchAndRenderPost_root emptyEnv (slugOfPrefix signedQuery) =
      Inl (Error ''Post not found: mon-article'')"
    by (simp add: slugOfPrefix_def signedQuery_def fetchAndRenderPost_root_def emptyEnv_def)
  from a b c emptyEnv_verified
    GET_failure_404 [OF emptyEnv_verified, of "Some [''inconnu'']" "Error ''Post not found: inconnu''"]
    GET_failure_404 [OF emptyEnv_verified, of "Some [''liste'']" "Error ''No authors found''"]
    GET_failure_404 [OF emptyEnv_verified, of _ "Error ''Post not found: mon-article''"]
  show ?thesis by simp
qed

text \<open>
  Claim C8. For every request that passes signature verification and whose fetch and
  render complete without throwing, the response has status 200, the rendered document as
  body, a \<^verbatim>\<open>Content-Type\<close> header that is exactly \<^verbatim>\<open>application/liquid\<close> and a
  \<^verbatim>\<open>Cache-Control\<close> header that is exactly \<^verbatim>\<open>public, max-age=300\<close>. Both routes.
\<close>

theorem GET_success_200:
  assumes "verifyShopifySignature coll (SHOPIFY_CLIENT_SECRET env) searchParams = Inr True"
  shows
    "(GET_html env (slugOf path) = Inr html \<longrightarrow>
        GET coll env searchParams path =
          Inr (\<lparr>body = html, status = 200,
                headers = [(''Content-Type'', ''application/liquid''),
                           (''Cache-Control'', ''public, max-age=300'')]\<rparr>, [])) \<and>
     (fetchAndRenderPost_root env (slugOfPrefix searchParams) = Inr html \<longrightarrow>
        GET_root coll env searchParams =
          Inr (\<lparr>body = html, status = 200,
                headers = [(''Content-Type'', ''application/liquid''),
                           (''Cache-Control'', ''public, max-age=300'')]\<rparr>, []))"
  by (simp add: GET_verified [OF assms] GET_root_verified [OF assms] ok_def)

theorem GET_success_200_witness:
  "verifyShopifySignature asciiLetterCollation (SHOPIFY_CLIENT_SECRET demoEnv) signedQuery = Inr True \<and>
   GET_html demoEnv (slugOf (Some [''liste''])) = Inr (authorListDocument demoAuthors) \<and>
   GET asciiLetterCollation demoEnv signedQuery (Some [''liste'']) =
     Inr (\<lparr>body = authorListDocument demoAuthors, status = 200,
           headers = [(''Content-Type'', ''application/liquid''),
                      (''Cache-Control'', ''public, max-age=300'')]\<rparr>, []) \<and>
   GET_root asciiLetterCollation demoEnv signedQuery =
     Inr (\<lparr>body = postDocument ''Titre'' (metaDate ''15 janvier 2024'') []
              (imgTag ''https://cdn.example/p.png?a=1&b=\"><script>'' ''Titre'') ''<p>texte</p>'',
           status = 200,
           headers = [(''Content-Type'', ''application/liquid''),
                      (''Cache-Control'', ''public, max-age=300'')]\<rparr>, [])"
proof -
  have a: "GET_html demoEnv (slugOf (Some [''liste''])) = Inr (authorListDocument demoAuthors)"
    by (simp add: GET_html_def slugOf_def fetchAndRenderAuthorList_def demoEnv_def demoClient_def
        demoAuthors_def)
  from a demoPost_document signedQuery_verified
    GET_success_200 [OF signedQuery_verified, of "Some [''liste'']" "authorListDocument demoAuthors"]
    GET_success_200 [OF signedQuery_verified, of _
      "postDocument ''Titre'' (metaDate ''15 janvier 2024'') []
         (imgTag ''https://cdn.example/p.png?a=1&b=\"><script>'' ''Titre'') ''<p>texte</p>''"]
  show ?thesis by simp
qed

text \<open>
  Claim C7. When the path parameter of the catch-all route is empty or equal to the
  reserved literal \<^verbatim>\<open>liste\<close> and the signature check passes, the handler renders in list
  mode: for the authors that the content store returns, the document is the fixed head of
  the list, one author-card fragment per author in store-returned order, and the fixed
  tail. The fragment of an author is the \<^verbatim>\<open>div\<close> of class \<^verbatim>\<open>author-card\<close> with the
  image, when the author has a photo, and the escaped name as heading; the head and the
  tail hold no such \<^verbatim>\<open>div\<close>.
\<close>

theorem GET_list_mode:
  assumes "verifyShopifySignature coll (SHOPIFY_CLIENT_SECRET env) searchParams = Inr True"
    and "slugOf path = [] \<or> slugOf path = ''liste''"
    and "fetch_authors (client env) = Inr (Some authors')"
    and "authors' \<noteq> []"
  shows "GET coll env searchParams path =
           Inr (\<lparr>body =
                   authorListHead @
                   concat (map
                     (\<lambda>author.
                        ''\<newline>    <div class=\"author-card\">\<newline>      '' @
                        (case photoUrl author of
                           None \<Rightarrow> []
                         | Some url \<Rightarrow>
                             if url = [] then []
                             else ''<img src=\"'' @ url @ ''\" alt=\"'' @
                                  escapedText (fullName author) @ ''\">'') @
                        ''\<newline>      <h2>'' @ escapedText (fullName author) @
                        ''</h2>\<newline>    </div>\<newline>  '')
                     authors') @
                   authorListTail,
                 status = 200,
                 headers = [(''Content-Type'', ''application/liquid''),
                            (''Cache-Control'', ''public, max-age=300'')]\<rparr>, []) \<and>
         \<not> sublist ''<div class=\"author-card\">'' authorListHead \<and>
         \<not> sublist ''<div class=\"author-card\">'' authorListTail"
proof -
  have "GET_html env (slugOf path) = Inr (authorListDocument authors')"
    using assms(2-) by (auto simp: GET_html_def fetchAndRenderAuthorList_def)
  then have g: "GET coll env searchParams path =
      Inr (\<lparr>body = authorListHead @ concat (map authorCard authors') @ authorListTail,
            status = 200,
            headers = [(''Content-Type'', ''application/liquid''),
                       (''Cache-Control'', ''public, max-age=300'')]\<rparr>, [])"
    by (simp add: GET_verified [OF assms(1)] ok_def authorListDocument_text)
  show ?thesis
    unfolding authorCard_text [symmetric]
    by (rule conjI [OF g conjI [OF no_card_head no_card_tail]])
qed

theorem GET_list_mode_witness:
  "verifyShopifySignature asciiLetterCollation (SHOPIFY_CLIENT_SECRET demoEnv) signedQuery = Inr True \<and>
   slugOf None = [] \<and> slugOf (Some [''liste'']) = ''liste'' \<and>
   fetch_authors (client demoEnv) = Inr (Some demoAuthors) \<and>
   demoAuthors \<noteq> [] \<and>
   GET asciiLetterCollation demoEnv signedQuery None =
     Inr (\<lparr>body =
             authorListHead @
             ''\<newline>    <div class=\"author-card\">\<newline>      <img src=\"https://cdn.example/a.png?w=1&h=\"2\"\" alt=\"Ada &lt;Dev&gt;\">\<newline>      <h2>Ada &lt;Dev&gt;</h2>\<newline>    </div>\<newline>  '' @
             ''\<newline>    <div class=\"author-card\">\<newline>      \<newline>      <h2>Bob</h2>\<newline>    </div>\<newline>  '' @
             authorListTail,
           status = 200,
           headers = [(''Content-Type'', ''application/liquid''),
                      (''Cache-Control'', ''public, max-age=300'')]\<rparr>, []) \<and>
   GET asciiLetterCollation demoEnv signedQuery (Some [''liste'']) =
   GET asciiLetterCollation demoEnv signedQuery None"
proof -
  have s: "slugOf None = []" "slugOf (Some [''liste'']) = ''liste''"
    by (simp_all add: slugOf_def)
  have f: "fetch_authors (client demoEnv) = Inr (Some demoAuthors)"
    by (simp add: demoEnv_def demoClient_def)
  have n: "demoAuthors \<noteq> []"
    by (simp add: demoAuthors_def)
  have e: "escapedText (Some ''Ada <Dev>'') = ''Ada &lt;Dev&gt;''" "escapedText (Some ''Bob'') = ''Bob''"
    by (simp_all add: escapedText_def escapeChar_def)
  from s f n e signedQuery_verified
    GET_list_mode [OF signedQuery_verified _ f n, of None]
    GET_list_mode [OF signedQuery_verified _ f n, of "Some [''liste'']"]
  show ?thesis
    by (simp add: demoAuthors_def)
qed

section \<open>Absent fields\<close>

text \<open>
  Claim C9, as the code has it. A record is assembled whatever its title: the catch-all
  route renders an absent title as the empty string, and the root route assembles a record
  whose title is the empty string. For every fetched record that is assembled, an absent
  publication date, an absent main image and an absent author (in the root route no author
  name; in the catch-all route no author list, an empty one, or a single author without a
  name) leave their place in the document empty, and an absent alternative text of the
  image is replaced by the title. An absent field is thus rendered as the empty string or
  not at all, never as the text \<^verbatim>\<open>undefined\<close>.
\<close>

theorem absent_fields_omitted:
  "(renderBody toHTML' (Blog.body post) = Inr bodyHTML \<longrightarrow>
      renderBlog toHTML' fmt post =
        Inr (docHead @ escapeHTML (Blog.title post) @ blogStyle @ escapeHTML (Blog.title post) @
             metaOpen @ metaDate (publishedDate fmt (Blog.publishedAt post)) @ metaSep @
             metaAuthors (authorNames (authors post)) @ metaClose @ mainPhoto post @
             contentOpen @ bodyHTML @ docTail)) \<and>
   (Blog.title post = None \<longrightarrow> escapeHTML (Blog.title post) = []) \<and>
   (Blog.publishedAt post = None \<longrightarrow> metaDate (publishedDate fmt (Blog.publishedAt post)) = []) \<and>
   (authors post = None \<or> authors post = Some [] \<or>
    (\<exists>a. authors post = Some [a] \<and> \<not> truthy (fullName a)) \<longrightarrow>
      metaAuthors (authorNames (authors post)) = []) \<and>
   (mainPhotoUrl post = None \<longrightarrow> mainPhoto post = []) \<and>
   (mainPhotoUrl post = Some url \<and> url \<noteq> [] \<and> mainPhotoAlt post = None \<longrightarrow>
      mainPhoto post =
        ''<img src=\"'' @ url @ ''\" alt=\"'' @ escapeHTML (Blog.title post) @ ''\">'') \<and>
   ((case Post.body post' of None \<Rightarrow> Inr [] | Some b \<Rightarrow> toHTML' b) = Inr bodyHTML' \<and>
    Post.title post' = Some t \<longrightarrow>
      renderPost_root toHTML' fmt post' =
        Inr (docHead @ concat (map escapeChar t) @ postStyle @ concat (map escapeChar t) @
             metaOpen @ metaDate (publishedDate fmt (Post.publishedAt post')) @ metaSep @
             postAuthor post' @ metaClose @ mainImage post' (concat (map escapeChar t)) @
             contentOpen @ bodyHTML' @ docTail)) \<and>
   (Post.publishedAt post' = None \<longrightarrow> metaDate (publishedDate fmt (Post.publishedAt post')) = []) \<and>
   (authorName post' = None \<longrightarrow> postAuthor post' = []) \<and>
   (mainImageUrl post' = None \<longrightarrow> mainImage post' title' = [])"
proof (intro conjI impI; (elim conjE)?)
  assume "renderBody toHTML' (Blog.body post) = Inr bodyHTML"
  then show "renderBlog toHTML' fmt post =
        Inr (docHead @ escapeHTML (Blog.title post) @ blogStyle @ escapeHTML (Blog.title post) @
             metaOpen @ metaDate (publishedDate fmt (Blog.publishedAt post)) @ metaSep @
             metaAuthors (authorNames (authors post)) @ metaClose @ mainPhoto post @
             contentOpen @ bodyHTML @ docTail)"
    by (simp add: renderBlog_def blogDocument_def)
next
  assume "Blog.title post = None"
  then show "escapeHTML (Blog.title post) = []"
    by (simp add: escapeHTML_def)
next
  assume "Blog.publishedAt post = None"
  then show "metaDate (publishedDate fmt (Blog.publishedAt post)) = []"
    by (simp add: metaDate_def publishedDate_def)
next
  assume "authors post = None \<or> authors post = Some [] \<or>
    (\<exists>a. authors post = Some [a] \<and> \<not> truthy (fullName a))"
  then show "metaAuthors (authorNames (authors post)) = []"
    by (rule metaAuthors_omitted)
next
  assume "mainPhotoUrl post = None"
  then show "mainPhoto post = []"
    by (simp add: mainPhoto_def)
next
  assume "mainPhotoUrl post = Some url" "url \<noteq> []" "mainPhotoAlt post = None"
  then show "mainPhoto post =
        ''<img src=\"'' @ url @ ''\" alt=\"'' @ escapeHTML (Blog.title post) @ ''\">''"
    by (simp add: mainPhoto_def truthy_def imgTag_def)
next
  assume "(case Post.body post' of None \<Rightarrow> Inr [] | Some b \<Rightarrow> toHTML' b) = Inr bodyHTML'"
    "Post.title post' = Some t"
  then show "renderPost_root toHTML' fmt post' =
        Inr (docHead @ concat (map escapeChar t) @ postStyle @ concat (map escapeChar t) @
             metaOpen @ metaDate (publishedDate fmt (Post.publishedAt post')) @ metaSep @
             postAuthor post' @ metaClose @ mainImage post' (concat (map escapeChar t)) @
             contentOpen @ bodyHTML' @ docTail)"
    by (simp add: renderPost_root_def escapeHTML_root_Some postDocument_def)
next
  assume "Post.publishedAt post' = None"
  then show "metaDate (publishedDate fmt (Post.publishedAt post')) = []"
    by (simp add: metaDate_def publishedDate_def)
next
  assume "authorName post' = None"
  then show "postAuthor post' = []"
    by (simp add: postAuthor_def)
next
  assume "mainImageUrl post' = None"
  then show "mainImage post' title' = []"
    by (simp add: mainImage_def)
qed

theorem absent_fields_omitted_witness:
  "renderBody (\<lambda>c. Inr c) (Blog.body untitledBlog) = Inr [] \<and>
   Blog.title untitledBlog = None \<and> Blog.publishedAt untitledBlog = None \<and>
   authors untitledBlog = None \<and> mainPhotoUrl untitledBlog = None \<and>
   renderBlog (\<lambda>c. Inr c) (\<lambda>d. d) untitledBlog =
     Inr (docHead @ blogStyle @ metaOpen @ metaSep @ metaClose @ contentOpen @ docTail) \<and>
   authors (untitledBlog\<lparr>authors := Some []\<rparr>) = Some [] \<and>
   metaAuthors (authorNames (authors (untitledBlog\<lparr>authors := Some []\<rparr>))) = [] \<and>
   authors (untitledBlog\<lparr>authors := Some [nameless]\<rparr>) = Some [nameless] \<and>
   \<not> truthy (fullName nameless) \<and>
   metaAuthors (authorNames (authors (untitledBlog\<lparr>authors := Some [nameless]\<rparr>))) = [] \<and>
   mainPhotoUrl demoBlog = Some ''https://cdn.example/p.png?a=1&b=\"><script>'' \<and>
   mainPhotoAlt demoBlog = None \<and>
   mainPhoto demoBlog = ''<img src=\"https://cdn.example/p.png?a=1&b=\"><script>\" alt=\"Titre\">'' \<and>
   Post.title untitledPost = Some [] \<and> Post.publishedAt untitledPost = None \<and>
   authorName untitledPost = None \<and> mainImageUrl untitledPost = None \<and>
   renderPost_root (\<lambda>c. Inr c) (\<lambda>d. d) untitledPost =
     Inr (docHead @ postStyle @ metaOpen @ metaSep @ metaClose @ contentOpen @ docTail)"
proof -
  have b: "renderBody (\<lambda>c. Inr c) (Blog.body untitledBlog) = Inr []"
    "Blog.title untitledBlog = None" "Blog.publishedAt untitledBlog = None"
    "authors untitledBlog = None" "mainPhotoUrl untitledBlog = None"
    by (simp_all add: untitledBlog_def renderBody_def)
  have a: "authors (untitledBlog\<lparr>authors := Some []\<rparr>) = Some []"
    "authors (untitledBlog\<lparr>authors := Some [nameless]\<rparr>) = Some [nameless]"
    "\<not> truthy (fullName nameless)"
    by (simp_all add: nameless_def truthy_def)
  have d: "mainPhotoUrl demoBlog = Some ''https://cdn.example/p.png?a=1&b=\"><script>''"
    "mainPhotoAlt demoBlog = None" "escapeHTML (Blog.title demoBlog) = ''Titre''"
    by (simp_all add: demoBlog_def escapeHTML_def escapeString_def)
  have p: "Post.title untitledPost = Some []" "Post.publishedAt untitledPost = None"
    "authorName untitledPost = None" "mainImageUrl untitledPost = None"
    "(case Post.body untitledPost of None \<Rightarrow> Inr [] | Some b \<Rightarrow> Inr b) = Inr []"
    by (simp_all add: untitledPost_def)
  from b a d p
    absent_fields_omitted [where post = untitledBlog and toHTML' = "\<lambda>c. Inr c" and fmt = "\<lambda>d. d"
      and bodyHTML = "[]" and post' = untitledPost and bodyHTML' = "[]" and t = "[]"
      and url = "[]" and title' = "[]"]
    absent_fields_omitted [where post = "untitledBlog\<lparr>authors := Some []\<rparr>"
      and toHTML' = "\<lambda>c. Inr c" and fmt = "\<lambda>d. d"
      and bodyHTML = "[]" and post' = untitledPost and bodyHTML' = "[]" and t = "[]"
      and url = "[]" and title' = "[]"]
    absent_fields_omitted [where post = "untitledBlog\<lparr>authors := Some [nameless]\<rparr>"
      and toHTML' = "\<lambda>c. Inr c" and fmt = "\<lambda>d. d"
      and bodyHTML = "[]" and post' = untitledPost and bodyHTML' = "[]" and t = "[]"
      and url = "[]" and title' = "[]"]
    absent_fields_omitted [where post = demoBlog and toHTML' = "\<lambda>c. Inr c" and fmt = "\<lambda>d. d"
      and bodyHTML = "[]" and post' = untitledPost and bodyHTML' = "[]"
      and t = "[]" and url = "''https://cdn.example/p.png?a=1&b=\"><script>''" and title' = "[]"]
  show ?thesis
    by (simp add: untitledBlog_def untitledPost_def)
qed

text \<open>
  Claim C9 as stated fails in its first part, for the alternative text and for the author
  names. A blog document without title is assembled (with an empty title), and so is a
  root-route post whose title is the empty string; the image of a document without
  alternative text keeps its \<^verbatim>\<open>alt\<close> attribute, filled with the title; and a document
  with two authors, neither of which has a name, keeps its author line, with the separator
  between two empty names.
\<close>

theorem title_invariant_counterexample:
  "Blog.title untitledBlog = None \<and>
   renderBlog (\<lambda>c. Inr c) (\<lambda>d. d) untitledBlog = Inr (blogDocument [] [] [] [] []) \<and>
   Post.title untitledPost = Some [] \<and>
   renderPost_root (\<lambda>c. Inr c) (\<lambda>d. d) untitledPost = Inr (postDocument [] [] [] [] []) \<and>
   mainPhotoAlt demoBlog = None \<and>
   mainPhoto demoBlog = ''<img src=\"https://cdn.example/p.png?a=1&b=\"><script>\" alt=\"Titre\">'' \<and>
   map fullName [nameless, nameless] = [None, None] \<and>
   renderBlog (\<lambda>c. Inr c) (\<lambda>d. d) (untitledBlog\<lparr>authors := Some [nameless, nameless]\<rparr>) =
     Inr (blogDocument [] [] ('' '' @ [CHR 0xC2, CHR 0xB7] @ '' Par , '') [] [])"
  by (simp add: untitledBlog_def untitledPost_def demoBlog_def renderBlog_def renderBody_def
      escapeHTML_def escapeString_def metaDate_def publishedDate_def metaAuthors_def
      authorNames_def mainPhoto_def truthy_def renderPost_root_def escapeHTML_root_def
      postAuthor_def mainImage_def imgTag_def nameless_def)

section \<open>Photo URLs\<close>

text \<open>
  Claim C10. For every fetched record with a photo URL, the main photo URL of the post
  (both routes) and the photo URL of each author (list mode) are put into the \<^verbatim>\<open>src\<close>
  attribute of the \<^verbatim>\<open>img\<close> element as they are, without escaping: the rendered document
  contains \<^verbatim>\<open><img src="\<close>, the URL exactly as the content store returned it, and
  \<^verbatim>\<open>" alt="\<close>, whatever characters the URL has.
\<close>

theorem photo_url_verbatim:
  "(mainPhotoUrl post = Some url \<and> url \<noteq> [] \<and> renderBlog toHTML' fmt post = Inr doc \<longrightarrow>
      sublist (''<img src=\"'' @ url @ ''\" alt=\"'') doc) \<and>
   (author \<in> set authors' \<and> photoUrl author = Some url \<and> url \<noteq> [] \<longrightarrow>
      sublist (''<img src=\"'' @ url @ ''\" alt=\"'') (authorListDocument authors')) \<and>
   (mainImageUrl post' = Some url \<and> url \<noteq> [] \<and> renderPost_root toHTML' fmt post' = Inr doc' \<longrightarrow>
      sublist (''<img src=\"'' @ url @ ''\" alt=\"'') doc')"
proof (intro conjI impI; elim conjE)
  assume u: "mainPhotoUrl post = Some url" "url \<noteq> []"
    and r: "renderBlog toHTML' fmt post = Inr doc"
  from r obtain t d n b where doc: "doc = blogDocument t d n (mainPhoto post) b"
    using renderBlog_Inr by blast
  from u obtain alt where "mainPhoto post = imgTag url alt"
    using mainPhoto_url by blast
  with doc show "sublist (''<img src=\"'' @ url @ ''\" alt=\"'') doc"
    by (simp only: sublist_blogDocument [OF sublist_imgTag])
next
  assume "author \<in> set authors'" "photoUrl author = Some url" "url \<noteq> []"
  then show "sublist (''<img src=\"'' @ url @ ''\" alt=\"'') (authorListDocument authors')"
    by (rule sublist_authorListDocument [OF _ sublist_authorCard])
next
  assume u: "mainImageUrl post' = Some url" "url \<noteq> []"
    and r: "renderPost_root toHTML' fmt post' = Inr doc'"
  from renderPost_root_Inr [OF r u] obtain t d n alt b
    where "doc' = postDocument t d n (imgTag url alt) b"
    by blast
  then show "sublist (''<img src=\"'' @ url @ ''\" alt=\"'') doc'"
    by (simp only: sublist_postDocument [OF sublist_imgTag])
qed

theorem photo_url_verbatim_witness:
  "sublist ''<img src=\"https://cdn.example/p.png?a=1&b=\"><script>\" alt=\"''
     (blogDocument ''Titre'' [] ('' '' @ [CHR 0xC2, CHR 0xB7] @ '' Par Ada &lt;Dev&gt;'')
            (imgTag ''https://cdn.example/p.png?a=1&b=\"><script>'' ''Titre'')
            (concat
              [''<section>\<newline>'',
               ''          <h2>A &amp; B</h2>\<newline>'',
               ''          <p>&lt;b&gt;gratuit&lt;/b&gt;</p>\<newline>'',
               ''          <p><strong></strong></p>\<newline>'',
               ''        </section>'',
               ''<section>\<newline>'',
               ''          <h2></h2>\<newline>'',
               ''          <p>texte</p>\<newline>'',
               ''        </section>''])) \<and>
   sublist ''<img src=\"https://cdn.example/a.png?w=1&h=\"2\"\" alt=\"''
     (authorListDocument demoAuthors) \<and>
   sublist ''<img src=\"https://cdn.example/p.png?a=1&b=\"><script>\" alt=\"''
     (postDocument ''Titre'' (metaDate ''15 janvier 2024'') []
        (imgTag ''https://cdn.example/p.png?a=1&b=\"><script>'' ''Titre'') ''<p>texte</p>'')"
proof -
  have p: "renderPost_root (\<lambda>c. Inr c)
      (\<lambda>d. if d = ''2024-01-15'' then ''15 janvier 2024'' else ''Invalid Date'') demoPost =
     Inr (postDocument ''Titre'' (metaDate ''15 janvier 2024'') []
            (imgTag ''https://cdn.example/p.png?a=1&b=\"><script>'' ''Titre'') ''<p>texte</p>'')"
    by (simp add: demoPost_def renderPost_root_def escapeHTML_root_def escapeString_def
        publishedDate_def postAuthor_def mainImage_def)
  have u: "mainPhotoUrl demoBlog = Some ''https://cdn.example/p.png?a=1&b=\"><script>''"
    "mainImageUrl demoPost = Some ''https://cdn.example/p.png?a=1&b=\"><script>''"
    "photoUrl (demoAuthors ! 0) = Some ''https://cdn.example/a.png?w=1&h=\"2\"''"
    "demoAuthors ! 0 \<in> set demoAuthors"
    by (simp_all add: demoBlog_def demoPost_def demoAuthors_def)
  from u demoBlog_document p
    photo_url_verbatim [where post = demoBlog
      and url = "''https://cdn.example/p.png?a=1&b=\"><script>''" and toHTML' = "\<lambda>c. Inr c"
      and fmt = "\<lambda>d. if d = ''2024-01-15'' then ''15 janvier 2024'' else ''Invalid Date''"
      and doc = "blogDocument ''Titre'' [] ('' '' @ [CHR 0xC2, CHR 0xB7] @ '' Par Ada &lt;Dev&gt;'')
            (imgTag ''https://cdn.example/p.png?a=1&b=\"><script>'' ''Titre'')
            (concat
              [''<section>\<newline>'',
               ''          <h2>A &amp; B</h2>\<newline>'',
               ''          <p>&lt;b&gt;gratuit&lt;/b&gt;</p>\<newline>'',
               ''          <p><strong></strong></p>\<newline>'',
               ''        </section>'',
               ''<section>\<newline>'',
               ''          <h2></h2>\<newline>'',
               ''          <p>texte</p>\<newline>'',
               ''        </section>''])"
      and author = "demoAuthors ! 1" and authors' = demoAuthors
      and post' = demoPost
      and doc' = "postDocument ''Titre'' (metaDate ''15 janvier 2024'') []
            (imgTag ''https://cdn.example/p.png?a=1&b=\"><script>'' ''Titre'') ''<p>texte</p>''"]
    photo_url_verbatim [where url = "''https://cdn.example/a.png?w=1&h=\"2\"''"
      and author = "demoAuthors ! 0" and authors' = demoAuthors
      and post = demoBlog and post' = demoPost and toHTML' = "\<lambda>c. Inr c"
      and fmt = "\<lambda>d. d" and doc = "[]" and doc' = "[]"]
  show ?thesis
    by simp
qed

end
